theory Spec2Isabelle
  imports Complex_Main
begin

section \<open>Values, errors and arrays\<close>

text \<open>
  The notebook \<^verbatim>\<open>5_spatiotemporal_correlation_analysis.ipynb\<close> works on arrays of
  floating-point numbers in which a missing observation is stored as not-a-number.
  A stored number is modelled as \<open>NaN\<close>, one of the two infinities, or a finite real.
  Only the tests that the notebook itself applies to stored numbers are modelled:
  \<^verbatim>\<open>np.isnan\<close>, the comparison \<^verbatim>\<open>< 0\<close> and \<^verbatim>\<open>np.nan_to_num\<close>.
\<close>

datatype val = NaN | NInf | PInf | Fin real

text \<open>The Python exceptions that the modelled cells can raise.\<close>

datatype exn = ValueError | ZeroDivisionError | IndexError | KeyError | RuntimeError

fun is_nan :: "val \<Rightarrow> bool" where
  "is_nan NaN = True"
| "is_nan NInf = False"
| "is_nan PInf = False"
| "is_nan (Fin r) = False"

text \<open>\<^verbatim>\<open>x < 0\<close> on a stored number: false for not-a-number, true for minus infinity.\<close>

fun lt_zero :: "val \<Rightarrow> bool" where
  "lt_zero NaN = False"
| "lt_zero NInf = True"
| "lt_zero PInf = False"
| "lt_zero (Fin r) = (r < 0)"

text \<open>\<^verbatim>\<open>x >= 0\<close> on a stored number: false for not-a-number.\<close>

fun ge_zero :: "val \<Rightarrow> bool" where
  "ge_zero NaN = False"
| "ge_zero NInf = False"
| "ge_zero PInf = True"
| "ge_zero (Fin r) = (0 \<le> r)"

text \<open>
  The floating-point types of an array that the zoom routine accepts, and the largest
  finite number of each (\<^verbatim>\<open>np.finfo(dtype).max\<close>).
\<close>

datatype dtype = Float32 | Float64

fun finfo_max :: "dtype \<Rightarrow> real" where
  "finfo_max Float32 = (2 - 1 / 2 ^ 23) * 2 ^ 127"
| "finfo_max Float64 = (2 - 1 / 2 ^ 52) * 2 ^ 1023"

text \<open>
  \<^verbatim>\<open>np.nan_to_num\<close> on an array of the given type: not-a-number becomes zero, an infinity
  becomes the finite number of largest magnitude of that type with the same sign, every
  other number is kept.
\<close>

fun nan_to_num :: "dtype \<Rightarrow> val \<Rightarrow> val" where
  "nan_to_num d NaN = Fin 0"
| "nan_to_num d PInf = Fin (finfo_max d)"
| "nan_to_num d NInf = Fin (- finfo_max d)"
| "nan_to_num d (Fin r) = Fin r"

text \<open>
  A two-dimensional array: its shape and its cells by (row, column) position. Cells are
  only ever read at positions inside the shape.
\<close>

record 'a ndarray2 =
  rows :: nat
  cols :: nat
  cell :: "nat \<Rightarrow> nat \<Rightarrow> 'a"

text \<open>
  A labelled (time, latitude, longitude) array. \<open>dtype\<close> is the type of its numbers;
  \<open>ntime\<close>, \<open>nlat\<close> and \<open>nlon\<close> are the lengths of its three coordinates; \<open>time a k\<close>
  is the time stamp at position \<open>k\<close> of \<^verbatim>\<open>a.time\<close>. Latitudes and longitudes are taken
  by position: the resampled array is a copy of the reference and carries its latitudes
  and longitudes.
\<close>

record dataarray =
  dtype :: dtype
  ntime :: nat
  nlat :: nat
  nlon :: nat
  time :: "nat \<Rightarrow> int"
  vals :: "nat \<Rightarrow> nat \<Rightarrow> nat \<Rightarrow> val"

text \<open>The coordinate \<^verbatim>\<open>a.time\<close> as a list of stamps.\<close>

definition stamps :: "dataarray \<Rightarrow> int list" where
  "stamps a = map (time a) [0..<ntime a]"

text \<open>
  The positions that a stamp has in \<^verbatim>\<open>a.time\<close>, and the lookup of a stamp in the index
  of the coordinate: a stamp that the coordinate does not carry raises \<^verbatim>\<open>KeyError\<close>; a
  stamp that it carries once is at one position; a stamp that it carries several times
  selects several time steps.
\<close>

definition stamp_positions :: "dataarray \<Rightarrow> int \<Rightarrow> nat list" where
  "stamp_positions a s = filter (\<lambda>k. time a k = s) [0..<ntime a]"

datatype loc = At nat | Several

definition get_loc :: "dataarray \<Rightarrow> int \<Rightarrow> exn + loc" where
  "get_loc a s =
     (case stamp_positions a s of
        [] \<Rightarrow> Inl KeyError
      | k # rest \<Rightarrow> (case rest of [] \<Rightarrow> Inr (At k) | _ # _ \<Rightarrow> Inr Several))"

text \<open>The slice at one position of the time axis, a view of shape (nlat, nlon).\<close>

definition sel_time :: "dataarray \<Rightarrow> nat \<Rightarrow> val ndarray2" where
  "sel_time a t = \<lparr>rows = nlat a, cols = nlon a, cell = vals a t\<rparr>"

text \<open>Writing through the view stores the slice in the array it was selected from.\<close>

definition store_time :: "dataarray \<Rightarrow> nat \<Rightarrow> val ndarray2 \<Rightarrow> dataarray" where
  "store_time a t s = a\<lparr>vals := (vals a)(t := cell s)\<rparr>"

definition nan_to_num_arr :: "dtype \<Rightarrow> val ndarray2 \<Rightarrow> val ndarray2" where
  "nan_to_num_arr d a =
     \<lparr>rows = rows a, cols = cols a, cell = (\<lambda>i j. nan_to_num d (cell a i j))\<rparr>"

definition isnan_arr :: "val ndarray2 \<Rightarrow> bool ndarray2" where
  "isnan_arr a = \<lparr>rows = rows a, cols = cols a, cell = (\<lambda>i j. is_nan (cell a i j))\<rparr>"

text \<open>
  \<^verbatim>\<open>fine[:] = output\<close>: every cell of the target is overwritten. NumPy broadcasts the
  source: along each axis it must have the target's length or length one (then its single
  entry is repeated); anything else raises \<^verbatim>\<open>ValueError\<close>.
\<close>

definition broadcastable :: "nat \<Rightarrow> nat \<Rightarrow> bool" where
  "broadcastable src dst = (src = dst \<or> src = 1)"

definition assign_all :: "'a ndarray2 \<Rightarrow> 'b ndarray2 \<Rightarrow> exn + 'b ndarray2" where
  "assign_all target src =
     (if broadcastable (rows src) (rows target) \<and> broadcastable (cols src) (cols target)
      then Inr \<lparr>rows = rows target, cols = cols target,
                cell = (\<lambda>i j. cell src (if rows src = rows target then i else 0)
                                       (if cols src = cols target then j else 0))\<rparr>
      else Inl ValueError)"

text \<open>
  The cell of the source that broadcasting stores at position \<open>(i, j)\<close> of the target.
\<close>

definition assigned :: "'a ndarray2 \<Rightarrow> 'b ndarray2 \<Rightarrow> nat \<Rightarrow> nat \<Rightarrow> 'b" where
  "assigned target src i j =
     cell src (if rows src = rows target then i else 0) (if cols src = cols target then j else 0)"

text \<open>\<^verbatim>\<open>fine.values[fine.values < 0] = 0\<close>\<close>

definition clamp_negative :: "val ndarray2 \<Rightarrow> val ndarray2" where
  "clamp_negative a =
     \<lparr>rows = rows a, cols = cols a,
      cell = (\<lambda>i j. if lt_zero (cell a i j) then Fin 0 else cell a i j)\<rparr>"

text \<open>
  \<^verbatim>\<open>fine.values[mask] = np.nan\<close> with a boolean mask: the mask must have the shape of
  the array (\<^verbatim>\<open>IndexError\<close> otherwise); the cells it marks become not-a-number.
\<close>

definition set_nan_where :: "bool ndarray2 \<Rightarrow> val ndarray2 \<Rightarrow> exn + val ndarray2" where
  "set_nan_where m a =
     (if rows m = rows a \<and> cols m = cols a
      then Inr \<lparr>rows = rows a, cols = cols a,
                cell = (\<lambda>i j. if cell m i j then NaN else cell a i j)\<rparr>
      else Inl IndexError)"


section \<open>The Grid Aligner\<close>

text \<open>
  \<^verbatim>\<open>scipy.ndimage.zoom\<close> is a library routine. The resampling loop is modelled for any
  behaviour of it: \<open>ndz order zoom a\<close> stands for \<^verbatim>\<open>ndzoom(a, zoom=zoom, order=order)\<close> on
  an array of numbers and \<open>ndzb zoom m\<close> for \<^verbatim>\<open>ndzoom(m, zoom=zoom, order=0)\<close> on a
  boolean array; either may raise.
\<close>

type_synonym zoom_fn = "nat \<Rightarrow> real \<times> real \<Rightarrow> val ndarray2 \<Rightarrow> exn + val ndarray2"
type_synonym mask_zoom_fn = "real \<times> real \<Rightarrow> bool ndarray2 \<Rightarrow> exn + bool ndarray2"

text \<open>
  \<^verbatim>\<open>ZOOM_FACTOR = (len(bare_soil.latitude) / len(soil_moisture.latitude),
                 len(bare_soil.longitude) / len(soil_moisture.longitude))\<close>
\<close>

definition zoom_factor :: "dataarray \<Rightarrow> dataarray \<Rightarrow> exn + real \<times> real" where
  "zoom_factor bare_soil soil_moisture =
     (if nlat soil_moisture = 0 \<or> nlon soil_moisture = 0 then Inl ZeroDivisionError
      else Inr (real (nlat bare_soil) / real (nlat soil_moisture),
                real (nlon bare_soil) / real (nlon soil_moisture)))"

text \<open>
  \<^verbatim>\<open>bare_soil.sel(time=timestamp)\<close> as the loop body uses it. A stamp that the reference
  does not carry raises \<^verbatim>\<open>KeyError\<close>. A stamp that it carries several times selects a
  three-dimensional array, whose missing mask the two-dimensional view of the output
  refuses with \<^verbatim>\<open>IndexError\<close>.
\<close>

definition sel_label :: "dataarray \<Rightarrow> int \<Rightarrow> exn + val ndarray2" where
  "sel_label a s =
     (case get_loc a s of
        Inl e \<Rightarrow> Inl e
      | Inr l \<Rightarrow> (case l of At k \<Rightarrow> Inr (sel_time a k) | Several \<Rightarrow> Inl IndexError))"

text \<open>
  The statements of the loop body, for the source slice \<open>data\<close> of type \<open>d\<close>, the
  selection \<open>ref_sel\<close> of \<^verbatim>\<open>bare_soil\<close> at the stamp and the view \<open>fine\<close> of the output:
  \<^verbatim>\<open>
    output = ndzoom(np.nan_to_num(data), zoom=ZOOM_FACTOR, order=SPLINE_ORDER)
    fine[:] = output
    fine.values[fine.values < 0] = 0
    fine.values[np.isnan(bare_soil.sel(time=timestamp).values)] = np.nan
    fine.values[ndzoom(np.isnan(data), zoom=ZOOM_FACTOR, order=0)] = np.nan
  \<close>
  The reference is looked up in the fourth statement, after the zoom and the clamp.
  Numbers are stored as they are: the rounding of a store into an array of a narrower
  type is not modelled.
\<close>

definition resample_step ::
  "zoom_fn \<Rightarrow> mask_zoom_fn \<Rightarrow> nat \<Rightarrow> real \<times> real \<Rightarrow> dtype \<Rightarrow>
   val ndarray2 \<Rightarrow> exn + val ndarray2 \<Rightarrow> val ndarray2 \<Rightarrow> exn + val ndarray2" where
  "resample_step ndz ndzb order zf d data ref_sel fine =
     (case ndz order zf (nan_to_num_arr d data) of
        Inl e \<Rightarrow> Inl e
      | Inr output \<Rightarrow>
          (case assign_all fine output of
             Inl e \<Rightarrow> Inl e
           | Inr fine1 \<Rightarrow>
               (case ref_sel of
                  Inl e \<Rightarrow> Inl e
                | Inr ref \<Rightarrow>
                    (case set_nan_where (isnan_arr ref) (clamp_negative fine1) of
                       Inl e \<Rightarrow> Inl e
                     | Inr fine2 \<Rightarrow>
                         (case ndzb zf (isnan_arr data) of
                            Inl e \<Rightarrow> Inl e
                          | Inr m \<Rightarrow> set_nan_where m fine2)))))"

text \<open>
  One iteration, for the stamp at position \<open>t\<close> of \<^verbatim>\<open>fine_moisture.time\<close>:
  \<^verbatim>\<open>
    data = soil_moisture.sel(time=timestamp)
    ...
    fine = fine_moisture.sel(time=timestamp)
  \<close>
  \<^verbatim>\<open>fine_moisture\<close> carries the stamps of \<^verbatim>\<open>soil_moisture\<close> (assigned before the loop), so
  the stamp selects the same positions in both. Where it selects several time steps,
  \<open>data\<close> is three-dimensional and the zoom refuses its two factors with
  \<^verbatim>\<open>RuntimeError\<close>.
\<close>

definition resample_at ::
  "zoom_fn \<Rightarrow> mask_zoom_fn \<Rightarrow> nat \<Rightarrow> real \<times> real \<Rightarrow>
   dataarray \<Rightarrow> dataarray \<Rightarrow> dataarray \<Rightarrow> nat \<Rightarrow> exn + dataarray" where
  "resample_at ndz ndzb order zf soil_moisture bare_soil fine_moisture t =
     (let timestamp = time fine_moisture t
      in case get_loc soil_moisture timestamp of
           Inl e \<Rightarrow> Inl e
         | Inr l \<Rightarrow>
             (case l of
                Several \<Rightarrow> Inl RuntimeError
              | At k \<Rightarrow>
                  (case resample_step ndz ndzb order zf (dtype soil_moisture)
                          (sel_time soil_moisture k) (sel_label bare_soil timestamp)
                          (sel_time fine_moisture k) of
                     Inl e \<Rightarrow> Inl e
                   | Inr fine \<Rightarrow> Inr (store_time fine_moisture k fine))))"

text \<open>\<^verbatim>\<open>for timestamp in fine_moisture.time: ...\<close>, the positions taken in order.\<close>

fun resample_loop ::
  "zoom_fn \<Rightarrow> mask_zoom_fn \<Rightarrow> nat \<Rightarrow> real \<times> real \<Rightarrow>
   dataarray \<Rightarrow> dataarray \<Rightarrow> nat list \<Rightarrow> dataarray \<Rightarrow> exn + dataarray" where
  "resample_loop ndz ndzb order zf soil_moisture bare_soil [] fine_moisture = Inr fine_moisture"
| "resample_loop ndz ndzb order zf soil_moisture bare_soil (t # ts) fine_moisture =
     (case resample_at ndz ndzb order zf soil_moisture bare_soil fine_moisture t of
        Inl e \<Rightarrow> Inl e
      | Inr fine_moisture' \<Rightarrow>
          resample_loop ndz ndzb order zf soil_moisture bare_soil ts fine_moisture')"

text \<open>
  The resampling cell as a whole. \<^verbatim>\<open>fine_moisture = deepcopy(bare_soil)\<close> starts the output
  as a copy of the reference; \<^verbatim>\<open>fine_moisture['time'] = soil_moisture.time\<close> gives it the
  stamps of the source and raises \<^verbatim>\<open>ValueError\<close> unless both arrays have the same number
  of time steps; then the zoom factor is computed and the loop runs.
\<close>

definition grid_aligner ::
  "zoom_fn \<Rightarrow> mask_zoom_fn \<Rightarrow> nat \<Rightarrow> dataarray \<Rightarrow> dataarray \<Rightarrow> exn + dataarray" where
  "grid_aligner ndz ndzb order soil_moisture bare_soil =
     (if ntime soil_moisture \<noteq> ntime bare_soil then Inl ValueError
      else
        (case zoom_factor bare_soil soil_moisture of
           Inl e \<Rightarrow> Inl e
         | Inr zf \<Rightarrow>
             resample_loop ndz ndzb order zf soil_moisture bare_soil
               [0..<ntime bare_soil] (bare_soil\<lparr>time := time soil_moisture\<rparr>)))"

text \<open>The zoom factor where the division is defined.\<close>

definition target_zoom :: "dataarray \<Rightarrow> dataarray \<Rightarrow> real \<times> real" where
  "target_zoom bare_soil soil_moisture =
     (real (nlat bare_soil) / real (nlat soil_moisture),
      real (nlon bare_soil) / real (nlon soil_moisture))"


section \<open>The Pointwise Correlation Mapper\<close>

text \<open>
  \<^verbatim>\<open>scipy.stats.pearsonr\<close> and \<^verbatim>\<open>scipy.stats.spearmanr\<close> are library routines. Each
  takes two series and either returns a pair (coefficient, p-value) or raises. The loop
  over the cells is modelled for any behaviour of the two routines.
\<close>

type_synonym stat_fn = "val list \<Rightarrow> val list \<Rightarrow> exn + val \<times> val"
type_synonym stats = "val \<times> val \<times> val \<times> val"

text \<open>\<^verbatim>\<open>a.sel(latitude=lat, longitude=lon)\<close>: the time series of one cell.\<close>

definition series :: "dataarray \<Rightarrow> nat \<Rightarrow> nat \<Rightarrow> val list" where
  "series a i j = map (\<lambda>t. vals a t i j) [0..<ntime a]"

text \<open>A latitude or longitude that the array does not carry raises \<^verbatim>\<open>KeyError\<close>.\<close>

definition sel_cell :: "dataarray \<Rightarrow> nat \<Rightarrow> nat \<Rightarrow> exn + val list" where
  "sel_cell a i j = (if i < nlat a \<and> j < nlon a then Inr (series a i j) else Inl KeyError)"

text \<open>
  The statistics of one pair of series:
  \<^verbatim>\<open>
    val = pearsonr(x, y)
    try:
        val += spearmanr(x, y)
    except ValueError:
        val += (np.nan, np.nan)
  \<close>
  The call of \<^verbatim>\<open>pearsonr\<close> stands before the \<^verbatim>\<open>try\<close>; the handler catches
  \<^verbatim>\<open>ValueError\<close> only.
\<close>

definition pair_stats :: "stat_fn \<Rightarrow> stat_fn \<Rightarrow> val list \<Rightarrow> val list \<Rightarrow> exn + stats" where
  "pair_stats pearsonr spearmanr x y =
     (case pearsonr x y of
        Inl e \<Rightarrow> Inl e
      | Inr (r, p) \<Rightarrow>
          (case spearmanr x y of
             Inr (rs, ps) \<Rightarrow> Inr (r, p, rs, ps)
           | Inl e \<Rightarrow> if e = ValueError then Inr (r, p, NaN, NaN) else Inl e))"

definition cell_stats ::
  "stat_fn \<Rightarrow> stat_fn \<Rightarrow> dataarray \<Rightarrow> dataarray \<Rightarrow> nat \<Rightarrow> nat \<Rightarrow> exn + stats" where
  "cell_stats pearsonr spearmanr fine_moisture bare_soil i j =
     (case sel_cell fine_moisture i j of
        Inl e \<Rightarrow> Inl e
      | Inr x \<Rightarrow>
          (case sel_cell bare_soil i j of
             Inl e \<Rightarrow> Inl e
           | Inr y \<Rightarrow> pair_stats pearsonr spearmanr x y))"

text \<open>
  \<^verbatim>\<open>for lon in fine_moisture.longitude: ... lonout.append(val)\<close>: one row of results,
  or the first exception.
\<close>

fun lon_loop ::
  "stat_fn \<Rightarrow> stat_fn \<Rightarrow> dataarray \<Rightarrow> dataarray \<Rightarrow> nat \<Rightarrow> nat list \<Rightarrow> exn + stats list" where
  "lon_loop pearsonr spearmanr fine_moisture bare_soil i [] = Inr []"
| "lon_loop pearsonr spearmanr fine_moisture bare_soil i (j # js) =
     (case cell_stats pearsonr spearmanr fine_moisture bare_soil i j of
        Inl e \<Rightarrow> Inl e
      | Inr v \<Rightarrow>
          (case lon_loop pearsonr spearmanr fine_moisture bare_soil i js of
             Inl e \<Rightarrow> Inl e
           | Inr lonout \<Rightarrow> Inr (v # lonout)))"

text \<open>\<^verbatim>\<open>for lat in fine_moisture.latitude: ... latout.append(lonout)\<close>\<close>

fun lat_loop ::
  "stat_fn \<Rightarrow> stat_fn \<Rightarrow> dataarray \<Rightarrow> dataarray \<Rightarrow> nat list \<Rightarrow> nat list \<Rightarrow>
   exn + stats list list" where
  "lat_loop pearsonr spearmanr fine_moisture bare_soil [] js = Inr []"
| "lat_loop pearsonr spearmanr fine_moisture bare_soil (i # is) js =
     (case lon_loop pearsonr spearmanr fine_moisture bare_soil i js of
        Inl e \<Rightarrow> Inl e
      | Inr lonout \<Rightarrow>
          (case lat_loop pearsonr spearmanr fine_moisture bare_soil is js of
             Inl e \<Rightarrow> Inl e
           | Inr latout \<Rightarrow> Inr (lonout # latout)))"

text \<open>The per-cell double loop, over the coordinates of \<^verbatim>\<open>fine_moisture\<close>.\<close>

definition cell_loop ::
  "stat_fn \<Rightarrow> stat_fn \<Rightarrow> dataarray \<Rightarrow> dataarray \<Rightarrow> exn + stats list list" where
  "cell_loop pearsonr spearmanr fine_moisture bare_soil =
     lat_loop pearsonr spearmanr fine_moisture bare_soil
       [0..<nlat fine_moisture] [0..<nlon fine_moisture]"

text \<open>
  The dataset \<^verbatim>\<open>corr\<close>. Its four fields are allocated with \<^verbatim>\<open>np.ndarray(shape)\<close>,
  which leaves the cells uninitialised: a cell is \<open>None\<close> until a number is stored in it.
\<close>

record corr =
  pearson_r :: "val option ndarray2"
  pearson_p :: "val option ndarray2"
  spearman_r :: "val option ndarray2"
  spearman_p :: "val option ndarray2"

definition empty_array :: "nat \<Rightarrow> nat \<Rightarrow> val option ndarray2" where
  "empty_array n m = \<lparr>rows = n, cols = m, cell = (\<lambda>i j. None)\<rparr>"

text \<open>
  \<^verbatim>\<open>np.ndarray([len(bare_soil[d]) for d in dims])\<close> for each of the four names.
\<close>

definition new_corr :: "dataarray \<Rightarrow> corr" where
  "new_corr bare_soil =
     \<lparr>pearson_r = empty_array (nlat bare_soil) (nlon bare_soil),
      pearson_p = empty_array (nlat bare_soil) (nlon bare_soil),
      spearman_r = empty_array (nlat bare_soil) (nlon bare_soil),
      spearman_p = empty_array (nlat bare_soil) (nlon bare_soil)\<rparr>"

fun stat0 :: "stats \<Rightarrow> val" where "stat0 (r, p, rs, ps) = r"
fun stat1 :: "stats \<Rightarrow> val" where "stat1 (r, p, rs, ps) = p"
fun stat2 :: "stats \<Rightarrow> val" where "stat2 (r, p, rs, ps) = rs"
fun stat3 :: "stats \<Rightarrow> val" where "stat3 (r, p, rs, ps) = ps"

text \<open>
  \<^verbatim>\<open>arr = np.array(latout)\<close> followed by \<^verbatim>\<open>arr[..., k]\<close>. For an empty list of rows, or
  rows without entries, the array has no last axis of length four and the index raises
  \<^verbatim>\<open>IndexError\<close>.
\<close>

definition last_axis :: "(stats \<Rightarrow> val) \<Rightarrow> stats list list \<Rightarrow> exn + val option ndarray2" where
  "last_axis f latout =
     (case latout of
        [] \<Rightarrow> Inl IndexError
      | lonout # _ \<Rightarrow>
          (case lonout of
             [] \<Rightarrow> Inl IndexError
           | _ # _ \<Rightarrow>
               Inr \<lparr>rows = length latout, cols = length lonout,
                    cell = (\<lambda>i j. Some (f (latout ! i ! j)))\<rparr>))"

text \<open>\<^verbatim>\<open>corr.pearson_r[:] = arr[..., 0]\<close> and its three siblings.\<close>

definition assign_field ::
  "val option ndarray2 \<Rightarrow> (stats \<Rightarrow> val) \<Rightarrow> stats list list \<Rightarrow> exn + val option ndarray2" where
  "assign_field field f latout =
     (case last_axis f latout of Inl e \<Rightarrow> Inl e | Inr a \<Rightarrow> assign_all field a)"

text \<open>The correlation cell as a whole: the double loop, then the four assignments.\<close>

definition correlation_mapper ::
  "stat_fn \<Rightarrow> stat_fn \<Rightarrow> dataarray \<Rightarrow> dataarray \<Rightarrow> corr \<Rightarrow> exn + corr" where
  "correlation_mapper pearsonr spearmanr fine_moisture bare_soil c =
     (case cell_loop pearsonr spearmanr fine_moisture bare_soil of
        Inl e \<Rightarrow> Inl e
      | Inr latout \<Rightarrow>
          (case assign_field (pearson_r c) stat0 latout of
             Inl e \<Rightarrow> Inl e
           | Inr f0 \<Rightarrow>
               (case assign_field (pearson_p c) stat1 latout of
                  Inl e \<Rightarrow> Inl e
                | Inr f1 \<Rightarrow>
                    (case assign_field (spearman_r c) stat2 latout of
                       Inl e \<Rightarrow> Inl e
                     | Inr f2 \<Rightarrow>
                         (case assign_field (spearman_p c) stat3 latout of
                            Inl e \<Rightarrow> Inl e
                          | Inr f3 \<Rightarrow>
                              Inr \<lparr>pearson_r = f0, pearson_p = f1,
                                   spearman_r = f2, spearman_p = f3\<rparr>)))))"


section \<open>Reference behaviour of the library routines\<close>

text \<open>
  The routines below are not code of the repository. They give one definite behaviour to
  the parameters of the two components wherever a statement needs a concrete run: the
  nearest-neighbour zoom for the resampling at order 0, and the two correlation routines
  in exact arithmetic.
\<close>

text \<open>Python's \<^verbatim>\<open>round\<close>: to the nearest integer, a tie to the even one.\<close>

definition py_round :: "real \<Rightarrow> int" where
  "py_round x =
     (let f = \<lfloor>x\<rfloor>; d = x - of_int f
      in if d < 1 / 2 then f else if 1 / 2 < d then f + 1 else if even f then f else f + 1)"

text \<open>
  Modelled from the spec: the nearest-neighbour (order 0) zoom, which is
  \<^verbatim>\<open>scipy.ndimage.zoom(a, zoom, order=0)\<close>; the routine is imported by the notebook and its
  code is missing from the sources. Output position \<open>k\<close> of an axis of \<open>n_out\<close> entries
  reads the input entry nearest to the coordinate \<open>k \<sqdot> (n_in - 1) / (n_out - 1)\<close>: the
  two ends of the axis are kept and the positions between them are spread evenly.
\<close>

definition nearest_index :: "nat \<Rightarrow> nat \<Rightarrow> nat \<Rightarrow> nat" where
  "nearest_index n_in n_out k =
     (if n_out \<le> 1 then 0
      else nat \<lfloor>real k * (real (n_in - 1) / real (n_out - 1)) + 1 / 2\<rfloor>)"

text \<open>
  Modelled from the spec: the zoomed array of the nearest-neighbour zoom (the routine
  \<^verbatim>\<open>scipy.ndimage.zoom\<close>, missing from the sources). Each axis of the result has the
  rounded product of the input length and the zoom factor as its length; a negative
  length raises \<^verbatim>\<open>ValueError\<close>.
\<close>

definition zoom_nearest :: "real \<times> real \<Rightarrow> 'a ndarray2 \<Rightarrow> exn + 'a ndarray2" where
  "zoom_nearest zf a =
     (let r = py_round (real (rows a) * fst zf); c = py_round (real (cols a) * snd zf)
      in if r < 0 \<or> c < 0 then Inl ValueError
         else Inr \<lparr>rows = nat r, cols = nat c,
                   cell = (\<lambda>i j. cell a (nearest_index (rows a) (nat r) i)
                                          (nearest_index (cols a) (nat c) j))\<rparr>)"

text \<open>
  Modelled from the spec: \<^verbatim>\<open>ndzoom\<close> restricted to order 0 (the routine
  \<^verbatim>\<open>scipy.ndimage.zoom\<close>, missing from the sources). The spline orders 1 to 5 are not
  modelled; the restriction refuses them.
\<close>

definition ndzoom_order0 :: zoom_fn where
  "ndzoom_order0 order zf a = (if order = 0 then zoom_nearest zf a else Inl RuntimeError)"

text \<open>
  Modelled from the spec: the order-0 zoom of a boolean mask (the routine
  \<^verbatim>\<open>scipy.ndimage.zoom\<close>, missing from the sources).
\<close>

definition mask_zoom_order0 :: mask_zoom_fn where
  "mask_zoom_order0 zf m = zoom_nearest zf m"

text \<open>
  What the loop body stores in a cell when the zoom is the nearest-neighbour one, from
  the source pixel \<open>s\<close> read for the cell (in an array of type \<open>d\<close>) and the reference
  value \<open>r\<close> of the cell: missing if either is missing, otherwise the source pixel after
  \<^verbatim>\<open>nan_to_num\<close> and the clamp.
\<close>

definition nearest_value :: "dtype \<Rightarrow> val \<Rightarrow> val \<Rightarrow> val" where
  "nearest_value d s r =
     (if is_nan s \<or> is_nan r then NaN
      else if lt_zero (nan_to_num d s) then Fin 0 else nan_to_num d s)"

fun finite_val :: "val \<Rightarrow> bool" where
  "finite_val (Fin r) = True"
| "finite_val NaN = False"
| "finite_val NInf = False"
| "finite_val PInf = False"

fun real_of_val :: "val \<Rightarrow> real" where
  "real_of_val (Fin r) = r"
| "real_of_val NaN = 0"
| "real_of_val NInf = 0"
| "real_of_val PInf = 0"

definition mean :: "real list \<Rightarrow> real" where
  "mean xs = sum_list xs / real (length xs)"

text \<open>
  Modelled from the spec: the linear correlation coefficient of two series of equal
  length (computed by \<^verbatim>\<open>scipy.stats.pearsonr\<close>, missing from the sources): the sum of the
  products of the centred values over the root of the product of their sums of squares.
\<close>

definition pearson_coeff :: "real list \<Rightarrow> real list \<Rightarrow> real" where
  "pearson_coeff xs ys =
     (let xm = map (\<lambda>x. x - mean xs) xs; ym = map (\<lambda>y. y - mean ys) ys
      in sum_list (map2 (*) xm ym) /
         sqrt (sum_list (map (\<lambda>x. x * x) xm) * sum_list (map (\<lambda>y. y * y) ym)))"

text \<open>
  Modelled from the spec: the two-sided significance p-value of a coefficient \<open>r\<close> from
  \<open>n\<close> observations (computed inside \<^verbatim>\<open>scipy.stats\<close>, missing from the sources). Under
  the null hypothesis the density of the coefficient on \<open>[-1, 1]\<close> is proportional to
  \<open>(1 - t\<^sup>2)\<close> to the power \<open>(n - 4) / 2\<close>; the p-value is the share of its mass beyond
  \<open>\<bar>r\<bar>\<close> on both sides. \<open>tail_integral m x\<close> is the integral from \<open>x\<close> to \<open>1\<close> of
  \<open>(1 - t\<^sup>2)\<close> to the power \<open>(m - 1) / 2\<close>, by its recurrence in \<open>m\<close>.
\<close>

fun tail_integral :: "nat \<Rightarrow> real \<Rightarrow> real" where
  "tail_integral 0 x = pi / 2 - arcsin x"
| "tail_integral (Suc 0) x = 1 - x"
| "tail_integral (Suc (Suc m)) x =
     (real (Suc m) * tail_integral m x - x * sqrt (1 - x * x) ^ Suc m) / real (Suc (Suc m))"

definition two_sided_p :: "nat \<Rightarrow> real \<Rightarrow> real" where
  "two_sided_p n r = tail_integral (n - 3) \<bar>r\<bar> / tail_integral (n - 3) 0"

text \<open>A series all of whose entries equal the first one.\<close>

definition constant_series :: "val list \<Rightarrow> bool" where
  "constant_series xs = (case xs of [] \<Rightarrow> True | x # rest \<Rightarrow> list_all (\<lambda>v. v = x) rest)"

text \<open>
  Modelled from the spec: the Pearson routine (\<^verbatim>\<open>scipy.stats.pearsonr\<close>, missing from the
  sources). The statistic is defined for series with non-zero variance and at least two
  paired observations. The routine checks its input first, as the library does: series of
  different lengths, or with fewer than two entries, are refused with \<^verbatim>\<open>ValueError\<close>.
  A series with a missing or infinite entry, or a constant series, gives not-a-number for
  both results; with two observations the p-value is one.
\<close>

definition pearsonr_ref :: stat_fn where
  "pearsonr_ref x y =
     (if length x \<noteq> length y then Inl ValueError
      else if length x < 2 then Inl ValueError
      else if \<not> list_all finite_val x \<or> \<not> list_all finite_val y then Inr (NaN, NaN)
      else if constant_series x \<or> constant_series y then Inr (NaN, NaN)
      else
        (let r = pearson_coeff (map real_of_val x) (map real_of_val y)
         in Inr (Fin r, Fin (if length x = 2 then 1 else two_sided_p (length x) r))))"

text \<open>The order of stored numbers; not-a-number is not ordered.\<close>

fun val_less :: "val \<Rightarrow> val \<Rightarrow> bool" where
  "val_less (Fin a) (Fin b) = (a < b)"
| "val_less NInf (Fin b) = True"
| "val_less NInf PInf = True"
| "val_less (Fin a) PInf = True"
| "val_less u v = False"

text \<open>
  Modelled from the spec: the rank ordering of a series (\<^verbatim>\<open>scipy.stats.rankdata\<close>,
  missing from the sources); equal entries share the average of their ranks.
\<close>

definition rank_in :: "val list \<Rightarrow> val \<Rightarrow> real" where
  "rank_in xs v =
     real (length (filter (\<lambda>u. val_less u v) xs)) +
     (real (length (filter (\<lambda>u. u = v) xs)) + 1) / 2"

definition rankdata :: "val list \<Rightarrow> real list" where
  "rankdata xs = map (rank_in xs) xs"

text \<open>
  Modelled from the spec: the Spearman routine (\<^verbatim>\<open>scipy.stats.spearmanr\<close>, missing from
  the sources): each series is replaced by its rank ordering and the linear-correlation
  formula is applied to the ranks. This variant answers not-a-number on degenerate input.
\<close>

definition spearmanr_ref :: stat_fn where
  "spearmanr_ref x y =
     (if length x \<noteq> length y then Inl ValueError
      else if length x < 2 then Inr (NaN, NaN)
      else if list_ex is_nan x \<or> list_ex is_nan y then Inr (NaN, NaN)
      else if constant_series x \<or> constant_series y then Inr (NaN, NaN)
      else
        (let rs = pearson_coeff (rankdata x) (rankdata y)
         in Inr (Fin rs, if length x = 2 then NaN else Fin (two_sided_p (length x) rs))))"

text \<open>
  Modelled from the spec: a Spearman routine whose computation fails on degenerate input
  (a constant series or too few points), as the edge-case policy of the spec describes;
  the failure is a \<^verbatim>\<open>ValueError\<close>.
\<close>

definition spearmanr_strict :: stat_fn where
  "spearmanr_strict x y =
     (if length x < 2 \<or> constant_series x \<or> constant_series y then Inl ValueError
      else spearmanr_ref x y)"


section \<open>The statistics the spec asks for\<close>




section \<open>Example arrays\<close>

text \<open>A coarse array of one negative pixel and a 2 by 2 reference with one missing cell.\<close>

definition soil_w :: dataarray where
  "soil_w = \<lparr>dtype = Float64, ntime = 1, nlat = 1, nlon = 1, time = int, vals = (\<lambda>t i j. Fin (- 3))\<rparr>"

definition bare_w :: dataarray where
  "bare_w = \<lparr>dtype = Float64, ntime = 1, nlat = 2, nlon = 2, time = int,
              vals = (\<lambda>t i j. if i = 0 \<and> j = 0 then NaN else Fin 1)\<rparr>"



definition negative_array :: dataarray where
  "negative_array = \<lparr>dtype = Float64, ntime = 1, nlat = 1, nlon = 1, time = int, vals = (\<lambda>t i j. Fin (- 1))\<rparr>"

text \<open>
  Arrays of shape (12, 2, 2) and (12, 4, 4); the source has negative pixels and one
  missing pixel.
\<close>

definition soil_2x2 :: dataarray where
  "soil_2x2 = \<lparr>dtype = Float64, ntime = 12, nlat = 2, nlon = 2, time = int,
                vals = (\<lambda>t i j. if i = 1 \<and> j = 1 then NaN else Fin (- 1))\<rparr>"

definition bare_4x4 :: dataarray where
  "bare_4x4 = \<lparr>dtype = Float64, ntime = 12, nlat = 4, nlon = 4, time = int, vals = (\<lambda>t i j. Fin 1)\<rparr>"

text \<open>Single cells over three or four time steps.\<close>

definition ramp :: dataarray where
  "ramp = \<lparr>dtype = Float64, ntime = 3, nlat = 1, nlon = 1, time = int, vals = (\<lambda>t i j. Fin (real t + 1))\<rparr>"

definition flat :: dataarray where
  "flat = \<lparr>dtype = Float64, ntime = 3, nlat = 1, nlon = 1, time = int, vals = (\<lambda>t i j. Fin 1)\<rparr>"

definition single_step :: dataarray where
  "single_step = \<lparr>dtype = Float64, ntime = 1, nlat = 1, nlon = 1, time = int, vals = (\<lambda>t i j. Fin 1)\<rparr>"



text \<open>Two arrays of two cells that agree on the first cell only.\<close>

definition ramp_and_flat :: dataarray where
  "ramp_and_flat = \<lparr>dtype = Float64, ntime = 3, nlat = 1, nlon = 2, time = int,
                     vals = (\<lambda>t i j. if j = 0 then Fin (real t + 1) else Fin 1)\<rparr>"

definition ramp_and_gap :: dataarray where
  "ramp_and_gap = \<lparr>dtype = Float64, ntime = 3, nlat = 1, nlon = 2, time = int,
                    vals = (\<lambda>t i j. if j = 0 then Fin (real t + 1) else NaN)\<rparr>"





section \<open>Properties of the resampling loop\<close>

text \<open>
  What a successful loop body has done, read off the definition: both zooms returned,
  the reference carried the stamp once, every shape fitted, and each cell of the result
  is the masked, clamped, broadcast cell of the interpolated array.
\<close>

lemma assign_all_Inr:
  "assign_all target src = Inr out \<Longrightarrow>
     broadcastable (rows src) (rows target) \<and> broadcastable (cols src) (cols target) \<and>
     rows out = rows target \<and> cols out = cols target \<and> cell out = assigned target src"
  by (auto simp: assign_all_def assigned_def fun_eq_iff split: if_splits)

lemma set_nan_where_Inr:
  "set_nan_where m a = Inr out \<Longrightarrow>
     rows m = rows a \<and> cols m = cols a \<and> rows out = rows a \<and> cols out = cols a \<and>
     cell out = (\<lambda>i j. if cell m i j then NaN else cell a i j)"
  by (auto simp: set_nan_where_def split: if_splits)

lemma resample_step_Inr:
  assumes "resample_step ndz ndzb order zf d data ref_sel fine = Inr out"
  shows "\<exists>interp m ref.
           ndz order zf (nan_to_num_arr d data) = Inr interp \<and>
           ndzb zf (isnan_arr data) = Inr m \<and>
           ref_sel = Inr ref \<and>
           broadcastable (rows interp) (rows fine) \<and> broadcastable (cols interp) (cols fine) \<and>
           rows ref = rows fine \<and> cols ref = cols fine \<and>
           rows m = rows fine \<and> cols m = cols fine \<and>
           rows out = rows fine \<and> cols out = cols fine \<and>
           (\<forall>i j. cell out i j =
              (if cell m i j \<or> is_nan (cell ref i j) then NaN
               else if lt_zero (assigned fine interp i j) then Fin 0
               else assigned fine interp i j))"
proof -
  from assms obtain interp where o: "ndz order zf (nan_to_num_arr d data) = Inr interp"
    by (auto simp: resample_step_def split: sum.splits)
  from assms o obtain fine1 where f1: "assign_all fine interp = Inr fine1"
    by (auto simp: resample_step_def split: sum.splits)
  from assms o f1 obtain ref where r: "ref_sel = Inr ref"
    by (auto simp: resample_step_def split: sum.splits)
  from assms o f1 r obtain fine2 where
    f2: "set_nan_where (isnan_arr ref) (clamp_negative fine1) = Inr fine2"
    by (auto simp: resample_step_def split: sum.splits)
  from assms o f1 r f2 obtain m where m: "ndzb zf (isnan_arr data) = Inr m"
    by (auto simp: resample_step_def split: sum.splits)
  from assms o f1 r f2 m have f3: "set_nan_where m fine2 = Inr out"
    by (simp add: resample_step_def)
  note a1 = assign_all_Inr [OF f1]
  note a2 = set_nan_where_Inr [OF f2]
  note a3 = set_nan_where_Inr [OF f3]
  show ?thesis
    using o m r a1 a2 a3
    by (intro exI [of _ interp] exI [of _ m] exI [of _ ref])
       (auto simp: isnan_arr_def clamp_negative_def)
qed

lemma resample_step_shape_only:
  "rows fine = rows fine' \<Longrightarrow> cols fine = cols fine' \<Longrightarrow>
   resample_step ndz ndzb order zf d data ref_sel fine =
   resample_step ndz ndzb order zf d data ref_sel fine'"
proof -
  assume "rows fine = rows fine'" "cols fine = cols fine'"
  then have "assign_all fine x = assign_all fine' x" for x :: "val ndarray2"
    by (simp add: assign_all_def)
  then show ?thesis by (simp add: resample_step_def split: sum.splits)
qed

text \<open>
  A failing selection of the reference is met after the interpolation has returned and
  its result has been stored.
\<close>

lemma resample_step_ref_fails:
  assumes "ndz order zf (nan_to_num_arr d data) = Inr interp"
    and "broadcastable (rows interp) (rows fine)" "broadcastable (cols interp) (cols fine)"
  shows "resample_step ndz ndzb order zf d data (Inl e) fine = Inl e"
  using assms by (simp add: resample_step_def assign_all_def)

text \<open>The lookup of a stamp.\<close>

lemma get_loc_At: "get_loc a s = Inr (At k) \<longleftrightarrow> stamp_positions a s = [k]"
  by (auto simp: get_loc_def split: list.splits)

lemma get_loc_cases:
  "get_loc a s = Inl e \<Longrightarrow> e = KeyError"
  by (auto simp: get_loc_def split: list.splits)

lemma sel_label_Inr:
  "sel_label a s = Inr ref \<longleftrightarrow> (\<exists>k. stamp_positions a s = [k] \<and> ref = sel_time a k)"
  by (auto simp: sel_label_def get_loc_def split: list.splits)

lemma stamp_positions_self:
  assumes "t < ntime a" and "stamp_positions a (time a t) = [k]"
  shows "k = t"
proof -
  from assms(1) have "t \<in> set (stamp_positions a (time a t))"
    by (simp add: stamp_positions_def)
  with assms(2) show ?thesis by simp
qed

lemma filter_eq_singleton:
  "distinct xs \<Longrightarrow> x \<in> set xs \<Longrightarrow> filter (\<lambda>y. y = x) xs = [x]"
  by (induction xs) (auto simp: filter_empty_conv)

lemma stamp_positions_distinct:
  assumes "distinct (stamps a)" and "t < ntime a"
  shows "stamp_positions a (time a t) = [t]"
proof -
  from assms(1) have inj: "inj_on (time a) (set [0..<ntime a])"
    by (simp add: stamps_def distinct_map)
  have "filter (\<lambda>k. time a k = time a t) [0..<ntime a] = filter (\<lambda>k. k = t) [0..<ntime a]"
    using inj assms(2) by (intro filter_cong refl) (auto dest: inj_onD)
  also have "\<dots> = [t]"
    using assms(2) by (intro filter_eq_singleton) simp_all
  finally show ?thesis by (simp add: stamp_positions_def)
qed

lemma stamps_eq:
  assumes "stamps b = stamps a"
  shows "ntime b = ntime a" and "t < ntime a \<Longrightarrow> time b t = time a t"
proof -
  from assms have "length (stamps b) = length (stamps a)" by simp
  then show n: "ntime b = ntime a" by (simp add: stamps_def)
  assume t: "t < ntime a"
  from assms have "stamps b ! t = stamps a ! t" by simp
  with t n show "time b t = time a t" by (simp add: stamps_def)
qed

lemma stamp_positions_same_stamps:
  assumes "stamps b = stamps a" and "distinct (stamps a)" and "t < ntime a"
  shows "stamp_positions b (time a t) = [t]"
proof -
  from stamps_eq [OF assms(1)] assms(3) have "ntime b = ntime a" "time b t = time a t"
    by simp_all
  with stamp_positions_distinct [of b t] assms show ?thesis by simp
qed

text \<open>One iteration, and the loop.\<close>

lemma resample_at_Inr:
  assumes "resample_at ndz ndzb order zf soil bare fm t = Inr fm'"
  shows "\<exists>k out.
           stamp_positions soil (time fm t) = [k] \<and>
           resample_step ndz ndzb order zf (dtype soil) (sel_time soil k)
             (sel_label bare (time fm t)) (sel_time fm k) = Inr out \<and>
           fm' = store_time fm k out"
  using assms
  by (auto simp: resample_at_def Let_def get_loc_At [symmetric] split: sum.splits loc.splits)

lemma resample_at_returns:
  assumes "stamp_positions soil (time fm t) = [k]"
    and "resample_step ndz ndzb order zf (dtype soil) (sel_time soil k)
           (sel_label bare (time fm t)) (sel_time fm k) = Inr out"
  shows "resample_at ndz ndzb order zf soil bare fm t = Inr (store_time fm k out)"
  using assms by (simp add: resample_at_def get_loc_def)

lemma store_time_fields [simp]:
  "dtype (store_time fm k out) = dtype fm"
  "ntime (store_time fm k out) = ntime fm"
  "nlat (store_time fm k out) = nlat fm"
  "nlon (store_time fm k out) = nlon fm"
  "time (store_time fm k out) = time fm"
  "vals (store_time fm k out) u = (if u = k then cell out else vals fm u)"
  by (simp_all add: store_time_def)

lemma resample_loop_Inr:
  assumes "resample_loop ndz ndzb order zf soil bare ts fm = Inr fm'"
    and "distinct ts" and "\<forall>t \<in> set ts. t < ntime soil" and "time fm = time soil"
  shows "dtype fm' = dtype fm \<and> ntime fm' = ntime fm \<and> nlat fm' = nlat fm \<and>
         nlon fm' = nlon fm \<and> time fm' = time fm \<and>
         (\<forall>t. t \<notin> set ts \<longrightarrow> vals fm' t = vals fm t) \<and>
         (\<forall>t \<in> set ts.
            stamp_positions soil (time soil t) = [t] \<and>
            (\<exists>out.
               resample_step ndz ndzb order zf (dtype soil) (sel_time soil t)
                 (sel_label bare (time soil t)) (sel_time fm t) = Inr out \<and>
               vals fm' t = cell out))"
  using assms
proof (induction ts arbitrary: fm)
  case Nil
  then show ?case by simp
next
  case (Cons t ts)
  from Cons.prems(1) obtain fm1 where
    at: "resample_at ndz ndzb order zf soil bare fm t = Inr fm1"
    and lp: "resample_loop ndz ndzb order zf soil bare ts fm1 = Inr fm'"
    by (auto split: sum.splits)
  from resample_at_Inr [OF at] Cons.prems(4) obtain k out where
    pos: "stamp_positions soil (time soil t) = [k]"
    and st: "resample_step ndz ndzb order zf (dtype soil) (sel_time soil k)
               (sel_label bare (time soil t)) (sel_time fm k) = Inr out"
    and fm1: "fm1 = store_time fm k out"
    by auto
  from Cons.prems(3) have "t < ntime soil" by simp
  from stamp_positions_self [OF this pos] have k: "k = t" .
  from Cons.prems(2) have d: "distinct ts" and nt: "t \<notin> set ts" by auto
  from Cons.prems(3) have rng: "\<forall>u \<in> set ts. u < ntime soil" by simp
  from Cons.prems(4) fm1 have tm: "time fm1 = time soil" by simp
  note ih = Cons.IH [OF lp d rng tm]
  have step_eq: "resample_step ndz ndzb order zf (dtype soil) (sel_time soil u)
                   (sel_label bare (time soil u)) (sel_time (store_time fm t out) u)
                 = resample_step ndz ndzb order zf (dtype soil) (sel_time soil u)
                   (sel_label bare (time soil u)) (sel_time fm u)" for u
    by (rule resample_step_shape_only) (simp_all add: sel_time_def)
  show ?case
    using ih st nt pos unfolding fm1 k by (auto simp: step_eq)
qed

lemma grid_aligner_Inr:
  assumes "grid_aligner ndz ndzb order soil bare = Inr fm"
  shows "ntime soil = ntime bare \<and> 0 < nlat soil \<and> 0 < nlon soil \<and>
         dtype fm = dtype bare \<and> ntime fm = ntime bare \<and> nlat fm = nlat bare \<and>
         nlon fm = nlon bare \<and> time fm = time soil \<and>
         (\<forall>t < ntime bare.
            stamp_positions soil (time soil t) = [t] \<and>
            (\<exists>out.
               resample_step ndz ndzb order (target_zoom bare soil) (dtype soil)
                 (sel_time soil t) (sel_label bare (time soil t)) (sel_time bare t) = Inr out \<and>
               vals fm t = cell out))"
proof -
  from assms have nt: "ntime soil = ntime bare" and pos: "0 < nlat soil" "0 < nlon soil"
    by (auto simp: grid_aligner_def zoom_factor_def split: if_splits)
  from assms nt pos have lp:
    "resample_loop ndz ndzb order (target_zoom bare soil) soil bare [0..<ntime bare]
       (bare\<lparr>time := time soil\<rparr>) = Inr fm"
    by (simp add: grid_aligner_def zoom_factor_def target_zoom_def)
  have shape: "sel_time (bare\<lparr>time := time soil\<rparr>) t = sel_time bare t" for t
    by (simp add: sel_time_def)
  from resample_loop_Inr [OF lp] nt pos show ?thesis
    by (simp add: shape)
qed

lemma resample_loop_succeeds:
  assumes "\<forall>t \<in> set ts.
             stamp_positions soil (time soil t) = [t] \<and>
             (\<exists>out.
                resample_step ndz ndzb order zf (dtype soil) (sel_time soil t)
                  (sel_label bare (time soil t)) (sel_time fm t) = Inr out)"
    and "time fm = time soil"
  shows "\<exists>fm'. resample_loop ndz ndzb order zf soil bare ts fm = Inr fm'"
  using assms
proof (induction ts arbitrary: fm)
  case Nil
  then show ?case by simp
next
  case (Cons t ts)
  from Cons.prems obtain out where
    pos: "stamp_positions soil (time fm t) = [t]"
    and st: "resample_step ndz ndzb order zf (dtype soil) (sel_time soil t)
               (sel_label bare (time fm t)) (sel_time fm t) = Inr out"
    by auto
  note at = resample_at_returns [OF pos st]
  have step_eq: "resample_step ndz ndzb order zf (dtype soil) (sel_time soil u)
                   (sel_label bare (time soil u)) (sel_time (store_time fm t out) u)
                 = resample_step ndz ndzb order zf (dtype soil) (sel_time soil u)
                   (sel_label bare (time soil u)) (sel_time fm u)" for u
    by (rule resample_step_shape_only) (simp_all add: sel_time_def)
  from Cons.prems have
    "\<forall>u \<in> set ts.
       stamp_positions soil (time soil u) = [u] \<and>
       (\<exists>out'.
          resample_step ndz ndzb order zf (dtype soil) (sel_time soil u)
            (sel_label bare (time soil u)) (sel_time (store_time fm t out) u) = Inr out')"
    by (simp add: step_eq)
  moreover from Cons.prems(2) have "time (store_time fm t out) = time soil" by simp
  ultimately have
    "\<exists>fm'. resample_loop ndz ndzb order zf soil bare ts (store_time fm t out) = Inr fm'"
    by (rule Cons.IH)
  with at show ?case by simp
qed

lemma grid_aligner_succeeds:
  assumes "ntime soil = ntime bare" "0 < nlat soil" "0 < nlon soil"
    and "\<forall>t < ntime bare.
            stamp_positions soil (time soil t) = [t] \<and>
            (\<exists>out.
               resample_step ndz ndzb order (target_zoom bare soil) (dtype soil)
                 (sel_time soil t) (sel_label bare (time soil t)) (sel_time bare t) = Inr out)"
  shows "\<exists>fm. grid_aligner ndz ndzb order soil bare = Inr fm"
proof -
  have shape: "sel_time (bare\<lparr>time := time soil\<rparr>) t = sel_time bare t" for t
    by (simp add: sel_time_def)
  from assms(4) have
    "\<forall>t \<in> set [0..<ntime bare].
       stamp_positions soil (time soil t) = [t] \<and>
       (\<exists>out.
          resample_step ndz ndzb order (target_zoom bare soil) (dtype soil)
            (sel_time soil t) (sel_label bare (time soil t))
            (sel_time (bare\<lparr>time := time soil\<rparr>) t) = Inr out)"
    by (simp add: shape)
  moreover have "time (bare\<lparr>time := time soil\<rparr>) = time soil" by simp
  ultimately have
    "\<exists>fm. resample_loop ndz ndzb order (target_zoom bare soil) soil bare [0..<ntime bare]
            (bare\<lparr>time := time soil\<rparr>) = Inr fm"
    by (rule resample_loop_succeeds)
  with assms(1-3) show ?thesis
    by (simp add: grid_aligner_def zoom_factor_def target_zoom_def)
qed


section \<open>The resampling loop with the nearest-neighbour zoom\<close>

lemma py_round_of_nat [simp]: "py_round (real n) = int n"
  by (simp add: py_round_def)

lemma nearest_index_same: "k < n \<Longrightarrow> nearest_index n n k = k"
  by (simp add: nearest_index_def)

lemma nearest_index_2_4: "k < 4 \<Longrightarrow> nearest_index 2 4 k = k div 2"
proof -
  assume "k < 4"
  then consider "k = 0" | "k = 1" | "k = 2" | "k = 3" by linarith
  then show ?thesis by cases (simp_all add: nearest_index_def)
qed



lemma resample_step_order0:
  assumes "py_round (real (rows data) * fst zf) = int (rows fine)"
    and "py_round (real (cols data) * snd zf) = int (cols fine)"
    and "rows ref = rows fine" and "cols ref = cols fine"
  shows "resample_step ndzoom_order0 mask_zoom_order0 0 zf d data (Inr ref) fine =
           Inr \<lparr>rows = rows fine, cols = cols fine,
                cell = (\<lambda>i j. nearest_value d
                          (cell data (nearest_index (rows data) (rows fine) i)
                                     (nearest_index (cols data) (cols fine) j))
                          (cell ref i j))\<rparr>"
  using assms
  by (simp add: resample_step_def ndzoom_order0_def mask_zoom_order0_def zoom_nearest_def
      nan_to_num_arr_def isnan_arr_def assign_all_def broadcastable_def clamp_negative_def
      set_nan_where_def nearest_value_def fun_eq_iff)

lemma grid_aligner_order0:
  assumes pos: "0 < nlat soil" "0 < nlon soil"
    and dist: "distinct (stamps soil)" and same: "stamps bare = stamps soil"
  shows "\<exists>fm. grid_aligner ndzoom_order0 mask_zoom_order0 0 soil bare = Inr fm \<and>
           dtype fm = dtype bare \<and> ntime fm = ntime bare \<and> nlat fm = nlat bare \<and>
           nlon fm = nlon bare \<and> time fm = time soil \<and>
           (\<forall>t < ntime bare. \<forall>i j. vals fm t i j =
              nearest_value (dtype soil)
                (vals soil t (nearest_index (nlat soil) (nlat bare) i)
                             (nearest_index (nlon soil) (nlon bare) j))
                (vals bare t i j))"
proof -
  from stamps_eq(1) [OF same] have nt: "ntime soil = ntime bare" by simp
  have own: "stamp_positions soil (time soil t) = [t]" if "t < ntime bare" for t
    using stamp_positions_distinct [OF dist] that nt by simp
  have ref: "sel_label bare (time soil t) = Inr (sel_time bare t)" if "t < ntime bare" for t
    using stamp_positions_same_stamps [OF same dist] that nt by (simp add: sel_label_Inr)
  have step: "resample_step ndzoom_order0 mask_zoom_order0 0 (target_zoom bare soil)
                (dtype soil) (sel_time soil t) (sel_label bare (time soil t)) (sel_time bare t) =
              Inr \<lparr>rows = nlat bare, cols = nlon bare,
                   cell = (\<lambda>i j. nearest_value (dtype soil)
                      (vals soil t (nearest_index (nlat soil) (nlat bare) i)
                                   (nearest_index (nlon soil) (nlon bare) j))
                      (vals bare t i j))\<rparr>" if "t < ntime bare" for t
    using pos
      resample_step_order0 [of "sel_time soil t" "target_zoom bare soil" "sel_time bare t"
        "sel_time bare t" "dtype soil"]
    by (simp add: ref [OF that] sel_time_def target_zoom_def)
  have "\<exists>fm. grid_aligner ndzoom_order0 mask_zoom_order0 0 soil bare = Inr fm"
    by (rule grid_aligner_succeeds [OF nt pos]) (simp add: step own)
  then obtain fm where fm: "grid_aligner ndzoom_order0 mask_zoom_order0 0 soil bare = Inr fm" ..
  from grid_aligner_Inr [OF fm] show ?thesis
    using fm by (auto simp: step)
qed

lemma zoom_call_2_4:
  assumes "nlat soil = 2" "nlon soil = 2"
  shows "\<exists>interp. ndzoom_order0 0 (2, 2) (nan_to_num_arr d (sel_time soil t)) = Inr interp \<and>
           rows interp = 4 \<and> cols interp = 4 \<and>
           (\<forall>i < 4. \<forall>j < 4. cell interp i j = nan_to_num d (vals soil t (i div 2) (j div 2)))"
  using assms
  by (simp add: ndzoom_order0_def zoom_nearest_def nan_to_num_arr_def sel_time_def py_round_def
      nearest_index_2_4)

lemma aligner_w:
  "\<exists>fm. grid_aligner ndzoom_order0 mask_zoom_order0 0 soil_w bare_w = Inr fm \<and>
     ntime fm = 1 \<and> nlat fm = 2 \<and> nlon fm = 2 \<and>
     (\<forall>i j. vals fm 0 i j = (if i = 0 \<and> j = 0 then NaN else Fin 0))"
proof -
  have "distinct (stamps soil_w)" "stamps bare_w = stamps soil_w"
    by (simp_all add: stamps_def distinct_map soil_w_def bare_w_def)
  from grid_aligner_order0 [OF _ _ this] obtain fm where
    fm: "grid_aligner ndzoom_order0 mask_zoom_order0 0 soil_w bare_w = Inr fm"
    and d: "ntime fm = ntime bare_w" "nlat fm = nlat bare_w" "nlon fm = nlon bare_w"
    and v: "\<forall>t < ntime bare_w. \<forall>i j. vals fm t i j =
              nearest_value (dtype soil_w)
                (vals soil_w t (nearest_index (nlat soil_w) (nlat bare_w) i)
                               (nearest_index (nlon soil_w) (nlon bare_w) j))
                (vals bare_w t i j)"
    by (auto simp: soil_w_def bare_w_def)
  from v have "\<forall>i j. vals fm 0 i j = (if i = 0 \<and> j = 0 then NaN else Fin 0)"
    by (simp add: soil_w_def bare_w_def nearest_value_def)
  with fm d show ?thesis
    by (intro exI [of _ fm]) (simp add: bare_w_def)
qed


section \<open>Properties of the per-cell loop\<close>

lemma pair_stats_Inr_iff:
  "(\<exists>v. pair_stats pr sr x y = Inr v) \<longleftrightarrow>
     (\<exists>r p. pr x y = Inr (r, p)) \<and> (\<forall>e. sr x y = Inl e \<longrightarrow> e = ValueError)"
  by (cases "pr x y"; cases "sr x y") (auto simp: pair_stats_def split: if_splits)

lemma pair_stats_Inr:
  assumes "pair_stats pr sr x y = Inr v"
  shows "pr x y = Inr (stat0 v, stat1 v) \<and>
         (sr x y = Inl ValueError \<longrightarrow> stat2 v = NaN \<and> stat3 v = NaN) \<and>
         (\<forall>rs ps. sr x y = Inr (rs, ps) \<longrightarrow> stat2 v = rs \<and> stat3 v = ps)"
  using assms
  by (cases v) (auto simp: pair_stats_def split: sum.splits prod.splits if_splits)

lemma lon_loop_Inr_iff:
  "lon_loop pr sr a b i js = Inr vs \<longleftrightarrow>
     list_all2 (\<lambda>j v. cell_stats pr sr a b i j = Inr v) js vs"
proof (induction js arbitrary: vs)
  case Nil
  then show ?case by auto
next
  case (Cons j js)
  show ?case
    by (cases vs; cases "cell_stats pr sr a b i j"; cases "lon_loop pr sr a b i js")
       (auto simp: Cons.IH [symmetric])
qed

lemma lat_loop_Inr_iff:
  "lat_loop pr sr a b is js = Inr latout \<longleftrightarrow>
     list_all2 (\<lambda>i lonout. lon_loop pr sr a b i js = Inr lonout) is latout"
proof (induction "is" arbitrary: latout)
  case Nil
  then show ?case by auto
next
  case (Cons i "is")
  show ?case
    by (cases latout; cases "lon_loop pr sr a b i js"; cases "lat_loop pr sr a b is js")
       (auto simp: Cons.IH [symmetric])
qed

lemma cell_loop_Inr_iff:
  "cell_loop pr sr a b = Inr latout \<longleftrightarrow>
     length latout = nlat a \<and>
     (\<forall>i < nlat a. length (latout ! i) = nlon a \<and>
        (\<forall>j < nlon a. cell_stats pr sr a b i j = Inr (latout ! i ! j)))"
  by (auto simp: cell_loop_def lat_loop_Inr_iff lon_loop_Inr_iff list_all2_conv_all_nth)

lemma cell_loop_returns:
  assumes "\<forall>i < nlat a. \<forall>j < nlon a. \<exists>v. cell_stats pr sr a b i j = Inr v"
  shows "\<exists>latout. cell_loop pr sr a b = Inr latout"
proof -
  define pick where "pick i j = (SOME v. cell_stats pr sr a b i j = Inr v)" for i j
  have p: "cell_stats pr sr a b i j = Inr (pick i j)" if "i < nlat a" "j < nlon a" for i j
    unfolding pick_def using assms that by (auto intro: someI_ex)
  have "cell_loop pr sr a b = Inr (map (\<lambda>i. map (pick i) [0..<nlon a]) [0..<nlat a])"
    by (simp add: cell_loop_Inr_iff p)
  then show ?thesis ..
qed

lemma cell_stats_in_range:
  "i < nlat a \<Longrightarrow> j < nlon a \<Longrightarrow> i < nlat b \<Longrightarrow> j < nlon b \<Longrightarrow>
   cell_stats pr sr a b i j = pair_stats pr sr (series a i j) (series b i j)"
  by (simp add: cell_stats_def sel_cell_def)

lemma assign_field_Inr:
  assumes "assign_field field f latout = Inr out"
  shows "latout \<noteq> [] \<and> hd latout \<noteq> [] \<and>
         broadcastable (length latout) (rows field) \<and>
         broadcastable (length (hd latout)) (cols field) \<and>
         rows out = rows field \<and> cols out = cols field \<and>
         (\<forall>i j. cell out i j =
            Some (f (latout ! (if length latout = rows field then i else 0)
                            ! (if length (hd latout) = cols field then j else 0))))"
proof -
  from assms obtain lonout rest where l: "latout = lonout # rest" and n: "lonout \<noteq> []"
    by (auto simp: assign_field_def last_axis_def split: list.splits)
  from n obtain v vs where lo: "lonout = v # vs" by (cases lonout) auto
  from assms l lo have
    "assign_all field \<lparr>rows = length latout, cols = length lonout,
        cell = (\<lambda>i j. Some (f (latout ! i ! j)))\<rparr> = Inr out"
    by (simp add: assign_field_def last_axis_def)
  from assign_all_Inr [OF this] l n show ?thesis
    by (simp add: assigned_def)
qed

lemma assign_field_returns:
  assumes "latout \<noteq> []" "hd latout \<noteq> []"
    and "length latout = rows field" "length (hd latout) = cols field"
  shows "\<exists>out. assign_field field f latout = Inr out"
  using assms
  by (cases latout; cases "hd latout")
     (auto simp: assign_field_def last_axis_def assign_all_def broadcastable_def)

lemma correlation_mapper_Inr:
  assumes "correlation_mapper pr sr a b c = Inr out"
  shows "\<exists>latout. cell_loop pr sr a b = Inr latout \<and>
           assign_field (pearson_r c) stat0 latout = Inr (pearson_r out) \<and>
           assign_field (pearson_p c) stat1 latout = Inr (pearson_p out) \<and>
           assign_field (spearman_r c) stat2 latout = Inr (spearman_r out) \<and>
           assign_field (spearman_p c) stat3 latout = Inr (spearman_p out)"
  using assms
  by (auto simp: correlation_mapper_def split: sum.splits)

lemma correlation_mapper_cell:
  assumes run: "correlation_mapper pr sr a b (new_corr b) = Inr out"
    and shp: "nlat a = nlat b" "nlon a = nlon b"
  shows "rows (pearson_r out) = nlat b \<and> cols (pearson_r out) = nlon b \<and>
         rows (pearson_p out) = nlat b \<and> cols (pearson_p out) = nlon b \<and>
         rows (spearman_r out) = nlat b \<and> cols (spearman_r out) = nlon b \<and>
         rows (spearman_p out) = nlat b \<and> cols (spearman_p out) = nlon b \<and>
         (\<forall>i < nlat b. \<forall>j < nlon b. \<exists>v.
            pair_stats pr sr (series a i j) (series b i j) = Inr v \<and>
            cell (pearson_r out) i j = Some (stat0 v) \<and>
            cell (pearson_p out) i j = Some (stat1 v) \<and>
            cell (spearman_r out) i j = Some (stat2 v) \<and>
            cell (spearman_p out) i j = Some (stat3 v))"
proof -
  from correlation_mapper_Inr [OF run] obtain latout where
    lp: "cell_loop pr sr a b = Inr latout"
    and f0: "assign_field (pearson_r (new_corr b)) stat0 latout = Inr (pearson_r out)"
    and f1: "assign_field (pearson_p (new_corr b)) stat1 latout = Inr (pearson_p out)"
    and f2: "assign_field (spearman_r (new_corr b)) stat2 latout = Inr (spearman_r out)"
    and f3: "assign_field (spearman_p (new_corr b)) stat3 latout = Inr (spearman_p out)"
    by blast
  from lp have len: "length latout = nlat a"
    and row: "\<forall>i < nlat a. length (latout ! i) = nlon a \<and>
                (\<forall>j < nlon a. cell_stats pr sr a b i j = Inr (latout ! i ! j))"
    by (simp_all add: cell_loop_Inr_iff)
  note a0 = assign_field_Inr [OF f0] and a1 = assign_field_Inr [OF f1]
    and a2 = assign_field_Inr [OF f2] and a3 = assign_field_Inr [OF f3]
  from a0 have ne: "latout \<noteq> []" "hd latout \<noteq> []" by simp_all
  from ne len have pos: "0 < nlat a" by (cases latout) auto
  from ne have hd0: "hd latout = latout ! 0" by (simp add: hd_conv_nth)
  with row pos have hl: "length (hd latout) = nlon a" by simp
  have bufs: "rows (pearson_r (new_corr b)) = nlat b" "cols (pearson_r (new_corr b)) = nlon b"
    "rows (pearson_p (new_corr b)) = nlat b" "cols (pearson_p (new_corr b)) = nlon b"
    "rows (spearman_r (new_corr b)) = nlat b" "cols (spearman_r (new_corr b)) = nlon b"
    "rows (spearman_p (new_corr b)) = nlat b" "cols (spearman_p (new_corr b)) = nlon b"
    by (simp_all add: new_corr_def empty_array_def)
  have cells: "\<exists>v. pair_stats pr sr (series a i j) (series b i j) = Inr v \<and>
            cell (pearson_r out) i j = Some (stat0 v) \<and>
            cell (pearson_p out) i j = Some (stat1 v) \<and>
            cell (spearman_r out) i j = Some (stat2 v) \<and>
            cell (spearman_p out) i j = Some (stat3 v)" if "i < nlat b" "j < nlon b" for i j
  proof -
    from that shp row have "cell_stats pr sr a b i j = Inr (latout ! i ! j)" by simp
    with that shp have "pair_stats pr sr (series a i j) (series b i j) = Inr (latout ! i ! j)"
      by (simp add: cell_stats_in_range)
    moreover from a0 a1 a2 a3 len hl shp bufs have
      "cell (pearson_r out) i j = Some (stat0 (latout ! i ! j))"
      "cell (pearson_p out) i j = Some (stat1 (latout ! i ! j))"
      "cell (spearman_r out) i j = Some (stat2 (latout ! i ! j))"
      "cell (spearman_p out) i j = Some (stat3 (latout ! i ! j))"
      by simp_all
    ultimately show ?thesis by blast
  qed
  from a0 a1 a2 a3 bufs cells show ?thesis by simp
qed

lemma correlation_mapper_returns:
  assumes shp: "nlat a = nlat b" "nlon a = nlon b" and pos: "0 < nlat a" "0 < nlon a"
    and ok: "\<forall>i < nlat a. \<forall>j < nlon a. \<exists>v. pair_stats pr sr (series a i j) (series b i j) = Inr v"
  shows "\<exists>out. correlation_mapper pr sr a b (new_corr b) = Inr out"
proof -
  from ok shp have "\<forall>i < nlat a. \<forall>j < nlon a. \<exists>v. cell_stats pr sr a b i j = Inr v"
    by (simp add: cell_stats_in_range)
  from cell_loop_returns [OF this] obtain latout where lp: "cell_loop pr sr a b = Inr latout" ..
  then have len: "length latout = nlat a"
    and row: "\<forall>i < nlat a. length (latout ! i) = nlon a"
    by (simp_all add: cell_loop_Inr_iff)
  from len pos have ne: "latout \<noteq> []" by auto
  then have "hd latout = latout ! 0" by (simp add: hd_conv_nth)
  with row pos have hl: "length (hd latout) = nlon a" by simp
  with pos have ne2: "hd latout \<noteq> []" by auto
  have r: "\<exists>out. assign_field (empty_array (nlat b) (nlon b)) f latout = Inr out" for f
    by (rule assign_field_returns [OF ne ne2]) (simp_all add: empty_array_def len hl shp)
  from r [of stat0] r [of stat1] r [of stat2] r [of stat3] lp show ?thesis
    by (auto simp: correlation_mapper_def new_corr_def)
qed

text \<open>The reference routines on two series of one length with at least two entries.\<close>

lemma series_length [simp]: "length (series a i j) = ntime a"
  by (simp add: series_def)

lemma pearsonr_ref_returns:
  "length x = length y \<Longrightarrow> 2 \<le> length x \<Longrightarrow> \<exists>r p. pearsonr_ref x y = Inr (r, p)"
  by (simp add: pearsonr_ref_def Let_def)

lemma pearsonr_ref_constant:
  "length x = length y \<Longrightarrow> 2 \<le> length x \<Longrightarrow> constant_series x \<or> constant_series y \<Longrightarrow>
   pearsonr_ref x y = Inr (NaN, NaN)"
  by (simp add: pearsonr_ref_def)

lemma spearmanr_ref_returns:
  "length x = length y \<Longrightarrow> \<exists>rs ps. spearmanr_ref x y = Inr (rs, ps)"
  by (simp add: spearmanr_ref_def Let_def)

lemma spearmanr_ref_constant:
  "length x = length y \<Longrightarrow> constant_series x \<or> constant_series y \<Longrightarrow>
   spearmanr_ref x y = Inr (NaN, NaN)"
  by (simp add: spearmanr_ref_def)

lemma spearmanr_strict_cases:
  "length x = length y \<Longrightarrow>
   spearmanr_strict x y = Inl ValueError \<or> (\<exists>rs ps. spearmanr_strict x y = Inr (rs, ps))"
  using spearmanr_ref_returns [of x y] by (simp add: spearmanr_strict_def)

lemma spearmanr_strict_constant:
  "constant_series x \<or> constant_series y \<Longrightarrow> spearmanr_strict x y = Inl ValueError"
  by (simp add: spearmanr_strict_def)

lemma ref_pair_stats_returns:
  assumes "sr = spearmanr_strict \<or> sr = spearmanr_ref"
    and "length x = length y" and "2 \<le> length x"
  shows "\<exists>v. pair_stats pearsonr_ref sr x y = Inr v"
proof -
  from pearsonr_ref_returns [OF assms(2,3)] have "\<exists>r p. pearsonr_ref x y = Inr (r, p)" .
  moreover have "\<forall>e. sr x y = Inl e \<longrightarrow> e = ValueError"
    using assms(1) spearmanr_strict_cases [OF assms(2)] spearmanr_ref_returns [OF assms(2)]
    by auto
  ultimately show ?thesis
    using pair_stats_Inr_iff [of pearsonr_ref sr x y] by blast
qed


section \<open>The example arrays evaluated\<close>

lemma series_ramp: "series ramp 0 0 = [Fin 1, Fin 2, Fin 3]"
  by (simp add: series_def ramp_def eval_nat_numeral)

lemma series_flat: "series flat 0 0 = [Fin 1, Fin 1, Fin 1]"
  by (simp add: series_def flat_def eval_nat_numeral)


lemma series_two:
  "series ramp_and_flat 0 0 = [Fin 1, Fin 2, Fin 3]"
  "series ramp_and_flat 0 (Suc 0) = [Fin 1, Fin 1, Fin 1]"
  "series ramp_and_gap 0 0 = [Fin 1, Fin 2, Fin 3]"
  "series ramp_and_gap 0 (Suc 0) = [NaN, NaN, NaN]"
  by (simp_all add: series_def ramp_and_flat_def ramp_and_gap_def eval_nat_numeral)

lemma stats_ramp_ramp:
  "pair_stats pearsonr_ref spearmanr_ref [Fin 1, Fin 2, Fin 3] [Fin 1, Fin 2, Fin 3]
     = Inr (Fin 1, Fin 0, Fin 1, Fin 0)"
  by (simp add: pair_stats_def pearsonr_ref_def spearmanr_ref_def constant_series_def
      pearson_coeff_def mean_def two_sided_p_def rankdata_def rank_in_def)

lemma stats_flat:
  "pair_stats pearsonr_ref spearmanr_ref [Fin 1, Fin 1, Fin 1] [Fin 1, Fin 1, Fin 1]
     = Inr (NaN, NaN, NaN, NaN)"
  "pair_stats pearsonr_ref spearmanr_strict [Fin 1, Fin 1, Fin 1] [Fin 1, Fin 2, Fin 3]
     = Inr (NaN, NaN, NaN, NaN)"
  "pair_stats pearsonr_ref spearmanr_ref [NaN, NaN, NaN] [NaN, NaN, NaN]
     = Inr (NaN, NaN, NaN, NaN)"
  "pair_stats pearsonr_ref spearmanr_ref [NaN, Fin 1, Fin 2, Fin 3] [Fin 5, Fin 1, Fin 2, Fin 3]
     = Inr (NaN, NaN, NaN, NaN)"
  by (simp_all add: pair_stats_def pearsonr_ref_def spearmanr_ref_def spearmanr_strict_def
      constant_series_def)




lemma mapper_two:
  "\<exists>out. correlation_mapper pearsonr_ref spearmanr_ref ramp_and_flat ramp_and_flat
            (new_corr ramp_and_flat) = Inr out"
  "\<exists>out. correlation_mapper pearsonr_ref spearmanr_ref ramp_and_gap ramp_and_gap
            (new_corr ramp_and_gap) = Inr out"
proof -
  have two: "j < 2 \<Longrightarrow> j = 0 \<or> j = 1" for j :: nat by auto
  show "\<exists>out. correlation_mapper pearsonr_ref spearmanr_ref ramp_and_flat ramp_and_flat
            (new_corr ramp_and_flat) = Inr out"
    by (rule correlation_mapper_returns)
       (auto simp: ramp_and_flat_def [THEN arg_cong, of nlat] ramp_and_flat_def [THEN arg_cong, of nlon]
          series_two stats_ramp_ramp stats_flat dest!: two)
  show "\<exists>out. correlation_mapper pearsonr_ref spearmanr_ref ramp_and_gap ramp_and_gap
            (new_corr ramp_and_gap) = Inr out"
    by (rule correlation_mapper_returns)
       (auto simp: ramp_and_gap_def [THEN arg_cong, of nlat] ramp_and_gap_def [THEN arg_cong, of nlon]
          series_two stats_ramp_ramp stats_flat dest!: two)
qed


section \<open>Linearly related series\<close>





















section \<open>The claims\<close>


subsection \<open>C1: a failing rank correlation is recorded as not-a-number\<close>

text \<open>
  Claim C1, with the reference routines: the Pearson routine, and for the rank
  correlation either the routine that fails on degenerate input or the one that answers
  not-a-number. The two arrays are co-registered, with the same grid and the same number
  of time steps, and there are at least two time steps. Then no error leaves the per-cell
  loop, and for every cell the mapper returns; where the rank computation failed on the
  cell's pair of series, both rank statistics of the cell are recorded as not-a-number;
  and at a cell with a constant series \<open>pearson_r\<close>, \<open>pearson_p\<close>, \<open>spearman_r\<close> and
  \<open>spearman_p\<close> are all not-a-number.
\<close>

theorem C1_rank_failure_isolated:
  assumes routine: "sr = spearmanr_strict \<or> sr = spearmanr_ref"
    and shp: "nlat a = nlat b" "nlon a = nlon b"
    and steps: "ntime a = ntime b" "2 \<le> ntime a"
  shows "(\<exists>latout. cell_loop pearsonr_ref sr a b = Inr latout) \<and>
         (\<forall>i < nlat a. \<forall>j < nlon a.
            \<exists>out. correlation_mapper pearsonr_ref sr a b (new_corr b) = Inr out \<and>
              ((\<exists>e. sr (series a i j) (series b i j) = Inl e) \<longrightarrow>
                 cell (spearman_r out) i j = Some NaN \<and> cell (spearman_p out) i j = Some NaN) \<and>
              (constant_series (series a i j) \<or> constant_series (series b i j) \<longrightarrow>
                 cell (pearson_r out) i j = Some NaN \<and> cell (pearson_p out) i j = Some NaN \<and>
                 cell (spearman_r out) i j = Some NaN \<and> cell (spearman_p out) i j = Some NaN))"
proof -
  have len: "length (series a i j) = length (series b i j)" "2 \<le> length (series a i j)" for i j
    using steps by simp_all
  have ok: "\<forall>i < nlat a. \<forall>j < nlon a.
              \<exists>v. pair_stats pearsonr_ref sr (series a i j) (series b i j) = Inr v"
    using routine len by (intro allI impI ref_pair_stats_returns)
  then have "\<forall>i < nlat a. \<forall>j < nlon a. \<exists>v. cell_stats pearsonr_ref sr a b i j = Inr v"
    using shp by (simp add: cell_stats_in_range)
  then have loop: "\<exists>latout. cell_loop pearsonr_ref sr a b = Inr latout"
    by (rule cell_loop_returns)
  have cells: "\<exists>out. correlation_mapper pearsonr_ref sr a b (new_corr b) = Inr out \<and>
              ((\<exists>e. sr (series a i j) (series b i j) = Inl e) \<longrightarrow>
                 cell (spearman_r out) i j = Some NaN \<and> cell (spearman_p out) i j = Some NaN) \<and>
              (constant_series (series a i j) \<or> constant_series (series b i j) \<longrightarrow>
                 cell (pearson_r out) i j = Some NaN \<and> cell (pearson_p out) i j = Some NaN \<and>
                 cell (spearman_r out) i j = Some NaN \<and> cell (spearman_p out) i j = Some NaN)"
    if rng: "i < nlat a" "j < nlon a" for i j
  proof -
    from rng have pos: "0 < nlat a" "0 < nlon a" by auto
    from correlation_mapper_returns [OF shp pos ok] obtain out where
      run: "correlation_mapper pearsonr_ref sr a b (new_corr b) = Inr out" ..
    from rng shp have rng': "i < nlat b" "j < nlon b" by simp_all
    from correlation_mapper_cell [OF run shp] rng' obtain v where
      v: "pair_stats pearsonr_ref sr (series a i j) (series b i j) = Inr v"
      and c: "cell (pearson_r out) i j = Some (stat0 v)" "cell (pearson_p out) i j = Some (stat1 v)"
        "cell (spearman_r out) i j = Some (stat2 v)" "cell (spearman_p out) i j = Some (stat3 v)"
      by blast
    note ps = pair_stats_Inr [OF v]
    have failed: "stat2 v = NaN \<and> stat3 v = NaN"
      if "sr (series a i j) (series b i j) = Inl e" for e
    proof -
      from that routine spearmanr_strict_cases [OF len(1), of i j]
        spearmanr_ref_returns [OF len(1), of i j]
      have "sr (series a i j) (series b i j) = Inl ValueError" by auto
      with ps show ?thesis by blast
    qed
    have const: "stat0 v = NaN \<and> stat1 v = NaN \<and> stat2 v = NaN \<and> stat3 v = NaN"
      if cs: "constant_series (series a i j) \<or> constant_series (series b i j)"
    proof -
      from pearsonr_ref_constant [OF len cs] ps have p: "stat0 v = NaN \<and> stat1 v = NaN"
        by simp
      from routine have "stat2 v = NaN \<and> stat3 v = NaN"
      proof
        assume "sr = spearmanr_strict"
        with spearmanr_strict_constant [OF cs] ps show ?thesis by simp
      next
        assume "sr = spearmanr_ref"
        with spearmanr_ref_constant [OF len(1) cs] ps show ?thesis by simp
      qed
      with p show ?thesis by simp
    qed
    from run c failed const show ?thesis by auto
  qed
  from loop cells show ?thesis by blast
qed

text \<open>
  A run of the theorem: a constant series against a rising one, over three time steps.
  The rank routine fails, and the mapper records four not-a-numbers.
\<close>

theorem C1_rank_failure_isolated_witness:
  "2 \<le> ntime flat \<and> constant_series (series flat 0 0) \<and>
   spearmanr_strict (series flat 0 0) (series ramp 0 0) = Inl ValueError \<and>
   (case correlation_mapper pearsonr_ref spearmanr_strict flat ramp (new_corr ramp) of
      Inl e \<Rightarrow> False
    | Inr out \<Rightarrow>
        cell (pearson_r out) 0 0 = Some NaN \<and> cell (pearson_p out) 0 0 = Some NaN \<and>
        cell (spearman_r out) 0 0 = Some NaN \<and> cell (spearman_p out) 0 0 = Some NaN)"
proof -
  have cs: "constant_series (series flat 0 0)"
    by (simp add: series_flat constant_series_def)
  have sr: "spearmanr_strict (series flat 0 0) (series ramp 0 0) = Inl ValueError"
    by (simp add: series_flat series_ramp spearmanr_strict_def constant_series_def)
  have shp: "nlat flat = nlat ramp" "nlon flat = nlon ramp"
    and steps: "ntime flat = ntime ramp" "2 \<le> ntime flat"
    and rng: "0 < nlat flat" "0 < nlon flat"
    by (simp_all add: flat_def ramp_def)
  have routine: "spearmanr_strict = spearmanr_strict \<or> spearmanr_strict = spearmanr_ref"
    by simp
  from C1_rank_failure_isolated [OF routine shp steps] rng cs obtain out where
    "correlation_mapper pearsonr_ref spearmanr_strict flat ramp (new_corr ramp) = Inr out"
    "cell (pearson_r out) 0 0 = Some NaN" "cell (pearson_p out) 0 0 = Some NaN"
    "cell (spearman_r out) 0 0 = Some NaN" "cell (spearman_p out) 0 0 = Some NaN"
    by blast
  with cs sr steps show ?thesis by simp
qed

text \<open>
  C1 as the spec states it fails on a cell with a single time step. Its series is
  constant and too short, the rank computation fails on it, and yet an error leaves the
  per-cell loop and the mapper: the \<^verbatim>\<open>ValueError\<close> of \<^verbatim>\<open>pearsonr\<close>, whose call stands
  before the \<^verbatim>\<open>try\<close>.
\<close>

theorem C1_error_escapes_counterexample:
  "constant_series (series single_step 0 0) \<and>
   spearmanr_strict (series single_step 0 0) (series single_step 0 0) = Inl ValueError \<and>
   cell_loop pearsonr_ref spearmanr_strict single_step single_step = Inl ValueError \<and>
   correlation_mapper pearsonr_ref spearmanr_strict single_step single_step
     (new_corr single_step) = Inl ValueError"
  by (simp add: correlation_mapper_def cell_loop_def cell_stats_def sel_cell_def pair_stats_def
      series_def single_step_def pearsonr_ref_def spearmanr_strict_def constant_series_def)


subsection \<open>C2: the missing cells of the output\<close>





subsection \<open>C3: the statistics are those of the complete series\<close>





subsection \<open>C4: interpolation of the zero-filled slice\<close>

text \<open>
  Claim C4. After a successful run, at every time step the interpolation routine was
  called with the requested order, with the zoom factor (target latitude count over
  source latitude count, target longitude count over source longitude count, both
  divisors positive), on the source slice in which every missing value is replaced by
  zero (and every finite value kept); and every output cell that is not missing holds the
  interpolated value of its position, clamped at zero.
\<close>

theorem C4_zero_filled_interpolation:
  assumes "grid_aligner ndz ndzb order soil_moisture bare_soil = Inr fine_moisture"
    and "t < ntime bare_soil"
  shows "0 < nlat soil_moisture \<and> 0 < nlon soil_moisture \<and>
         (\<exists>interp.
           ndz order (real (nlat bare_soil) / real (nlat soil_moisture),
                      real (nlon bare_soil) / real (nlon soil_moisture))
             \<lparr>rows = nlat soil_moisture, cols = nlon soil_moisture,
              cell = (\<lambda>i j. if is_nan (vals soil_moisture t i j) then Fin 0
                             else nan_to_num (dtype soil_moisture) (vals soil_moisture t i j))\<rparr> = Inr interp \<and>
           (\<forall>i j r. vals soil_moisture t i j = Fin r \<longrightarrow> nan_to_num (dtype soil_moisture) (vals soil_moisture t i j) = Fin r) \<and>
           (\<forall>i j. \<not> is_nan (vals fine_moisture t i j) \<longrightarrow>
              vals fine_moisture t i j =
                (if lt_zero (assigned (sel_time bare_soil t) interp i j) then Fin 0
                 else assigned (sel_time bare_soil t) interp i j)))"
proof -
  from grid_aligner_Inr [OF assms(1)] assms(2) obtain out where
    st: "resample_step ndz ndzb order (target_zoom bare_soil soil_moisture)
           (dtype soil_moisture) (sel_time soil_moisture t)
           (sel_label bare_soil (time soil_moisture t)) (sel_time bare_soil t) = Inr out"
    and v: "vals fine_moisture t = cell out"
    by blast
  from resample_step_Inr [OF st] obtain interp and m :: "bool ndarray2" and ref :: "val ndarray2" where
    i: "ndz order (target_zoom bare_soil soil_moisture) (nan_to_num_arr (dtype soil_moisture) (sel_time soil_moisture t))
          = Inr interp"
    and c: "\<forall>i j. cell out i j =
              (if cell m i j \<or> is_nan (cell ref i j) then NaN
               else if lt_zero (assigned (sel_time bare_soil t) interp i j) then Fin 0
               else assigned (sel_time bare_soil t) interp i j)"
    by blast
  have same: "nan_to_num_arr (dtype soil_moisture) (sel_time soil_moisture t) =
          \<lparr>rows = nlat soil_moisture, cols = nlon soil_moisture,
           cell = (\<lambda>i j. if is_nan (vals soil_moisture t i j) then Fin 0
                          else nan_to_num (dtype soil_moisture) (vals soil_moisture t i j))\<rparr>"
  proof -
    have "nan_to_num d v = (if is_nan v then Fin 0 else nan_to_num d v)" for d v
      by (cases v) simp_all
    then show ?thesis
      by (simp add: nan_to_num_arr_def sel_time_def fun_eq_iff)
  qed
  from i have "ndz order (real (nlat bare_soil) / real (nlat soil_moisture),
                      real (nlon bare_soil) / real (nlon soil_moisture))
             \<lparr>rows = nlat soil_moisture, cols = nlon soil_moisture,
              cell = (\<lambda>i j. if is_nan (vals soil_moisture t i j) then Fin 0
                             else nan_to_num (dtype soil_moisture) (vals soil_moisture t i j))\<rparr> = Inr interp"
    by (simp only: same target_zoom_def)
  moreover have "\<forall>i j. \<not> is_nan (vals fine_moisture t i j) \<longrightarrow>
              vals fine_moisture t i j =
                (if lt_zero (assigned (sel_time bare_soil t) interp i j) then Fin 0
                 else assigned (sel_time bare_soil t) interp i j)"
    using c v by (auto split: if_splits)
  moreover from grid_aligner_Inr [OF assms(1)] have "0 < nlat soil_moisture" "0 < nlon soil_moisture"
    by simp_all
  ultimately show ?thesis by auto
qed

text \<open>
  A run of the theorem: a 1 by 1 source zoomed by two on each axis.
\<close>

theorem C4_zero_filled_interpolation_witness:
  "(case grid_aligner ndzoom_order0 mask_zoom_order0 0 soil_w bare_w of
      Inl e \<Rightarrow> False
    | Inr fm \<Rightarrow>
        ndzoom_order0 0 (2, 2) \<lparr>rows = 1, cols = 1, cell = (\<lambda>i j. Fin (- 3))\<rparr> \<noteq> Inl ValueError \<and>
        vals fm 0 1 1 = Fin 0)"
proof -
  from aligner_w obtain fm where
    fm: "grid_aligner ndzoom_order0 mask_zoom_order0 0 soil_w bare_w = Inr fm"
    and v: "\<forall>i j. vals fm 0 i j = (if i = 0 \<and> j = 0 then NaN else Fin 0)"
    by blast
  have t: "0 < ntime bare_w" by (simp add: bare_w_def)
  from C4_zero_filled_interpolation [OF fm t] obtain interp where
    "ndzoom_order0 0 (real (nlat bare_w) / real (nlat soil_w), real (nlon bare_w) / real (nlon soil_w))
       \<lparr>rows = nlat soil_w, cols = nlon soil_w,
        cell = (\<lambda>i j. if is_nan (vals soil_w 0 i j) then Fin 0 else nan_to_num (dtype soil_w) (vals soil_w 0 i j))\<rparr>
      = Inr interp"
    by blast
  then have "ndzoom_order0 0 (2, 2) \<lparr>rows = 1, cols = 1, cell = (\<lambda>i j. Fin (- 3))\<rparr> = Inr interp"
    by (simp add: soil_w_def bare_w_def)
  with fm v show ?thesis by simp
qed


subsection \<open>C5: no negative value after the clamp\<close>

text \<open>
  Claim C5. The loop clamps on every run. After a successful run every output cell at
  every time step is missing or holds a value greater than or equal to zero, and where
  the interpolated value was negative the cell is missing or holds exactly zero.
\<close>

theorem C5_clamped_values_not_negative:
  assumes "grid_aligner ndz ndzb order soil_moisture bare_soil = Inr fine_moisture"
    and "t < ntime fine_moisture"
  shows "(is_nan (vals fine_moisture t i j) \<or> ge_zero (vals fine_moisture t i j)) \<and>
         (\<exists>interp.
            ndz order (target_zoom bare_soil soil_moisture)
              (nan_to_num_arr (dtype soil_moisture) (sel_time soil_moisture t)) = Inr interp \<and>
            (lt_zero (assigned (sel_time bare_soil t) interp i j) \<longrightarrow>
               is_nan (vals fine_moisture t i j) \<or> vals fine_moisture t i j = Fin 0))"
proof -
  from grid_aligner_Inr [OF assms(1)] assms(2) obtain out where
    st: "resample_step ndz ndzb order (target_zoom bare_soil soil_moisture)
           (dtype soil_moisture) (sel_time soil_moisture t)
           (sel_label bare_soil (time soil_moisture t)) (sel_time bare_soil t) = Inr out"
    and v: "vals fine_moisture t = cell out"
    by auto
  from resample_step_Inr [OF st] obtain interp and m :: "bool ndarray2" and ref :: "val ndarray2" where
    i: "ndz order (target_zoom bare_soil soil_moisture) (nan_to_num_arr (dtype soil_moisture) (sel_time soil_moisture t))
          = Inr interp"
    and c: "\<forall>i j. cell out i j =
              (if cell m i j \<or> is_nan (cell ref i j) then NaN
               else if lt_zero (assigned (sel_time bare_soil t) interp i j) then Fin 0
               else assigned (sel_time bare_soil t) interp i j)"
    by blast
  have nonneg: "ge_zero u \<or> is_nan u" if "\<not> lt_zero u" for u
    using that by (cases u) auto
  from c v have "is_nan (vals fine_moisture t i j) \<or> ge_zero (vals fine_moisture t i j)"
    using nonneg [of "assigned (sel_time bare_soil t) interp i j"] by auto
  moreover from c v have
    "lt_zero (assigned (sel_time bare_soil t) interp i j) \<longrightarrow>
       is_nan (vals fine_moisture t i j) \<or> vals fine_moisture t i j = Fin 0"
    by auto
  ultimately show ?thesis using i by blast
qed

text \<open>
  A run of the theorem: the source pixel is -3, the output holds zero where the
  reference has a value and is missing where the reference is missing.
\<close>

theorem C5_clamped_values_not_negative_witness:
  "(case grid_aligner ndzoom_order0 mask_zoom_order0 0 soil_w bare_w of
      Inl e \<Rightarrow> False
    | Inr fm \<Rightarrow>
        0 < ntime fm \<and> vals soil_w 0 0 0 = Fin (- 3) \<and>
        vals fm 0 1 1 = Fin 0 \<and> ge_zero (vals fm 0 1 1) \<and> is_nan (vals fm 0 0 0))"
proof -
  from aligner_w obtain fm where
    fm: "grid_aligner ndzoom_order0 mask_zoom_order0 0 soil_w bare_w = Inr fm"
    and t: "ntime fm = 1"
    and v: "\<forall>i j. vals fm 0 i j = (if i = 0 \<and> j = 0 then NaN else Fin 0)"
    by blast
  from t have t': "0 < ntime fm" by simp
  from C5_clamped_values_not_negative [OF fm t', of 1 1]
  have "is_nan (vals fm 0 1 1) \<or> ge_zero (vals fm 0 1 1)" by blast
  with fm t v show ?thesis by (simp add: soil_w_def)
qed


subsection \<open>C6: resampling an array onto its own grid\<close>

text \<open>
  Claim C6, as the code has it, with the nearest-neighbour zoom. Resampling an array
  with at least one latitude and one longitude and with distinct time stamps onto its own
  grid, with itself as the reference, returns an array of the same shape, type and stamps
  whose missing cells are exactly the original's; a cell holding a finite number \<open>r\<close>
  holds \<open>max 0 r\<close> afterwards, so it is unchanged exactly when it is not negative; plus
  infinity becomes the largest finite number of the array's type and minus infinity
  becomes zero.
\<close>

theorem C6_resample_onto_own_grid:
  assumes "0 < nlat a" and "0 < nlon a" and "distinct (stamps a)"
  shows "target_zoom a a = (1, 1) \<and>
         (\<exists>fm. grid_aligner ndzoom_order0 mask_zoom_order0 0 a a = Inr fm \<and>
           dtype fm = dtype a \<and> ntime fm = ntime a \<and> nlat fm = nlat a \<and> nlon fm = nlon a \<and>
           time fm = time a \<and>
           (\<forall>t < ntime a. \<forall>i < nlat a. \<forall>j < nlon a.
              (is_nan (vals fm t i j) \<longleftrightarrow> is_nan (vals a t i j)) \<and>
              (\<forall>r. vals a t i j = Fin r \<longrightarrow> vals fm t i j = Fin (max 0 r)) \<and>
              (vals a t i j = PInf \<longrightarrow> vals fm t i j = Fin (finfo_max (dtype a))) \<and>
              (vals a t i j = NInf \<longrightarrow> vals fm t i j = Fin 0)))"
proof -
  from grid_aligner_order0 [OF assms refl] obtain fm where
    fm: "grid_aligner ndzoom_order0 mask_zoom_order0 0 a a = Inr fm"
    and d: "dtype fm = dtype a" "ntime fm = ntime a" "nlat fm = nlat a" "nlon fm = nlon a"
      "time fm = time a"
    and v: "\<forall>t < ntime a. \<forall>i j. vals fm t i j =
              nearest_value (dtype a)
                (vals a t (nearest_index (nlat a) (nlat a) i) (nearest_index (nlon a) (nlon a) j))
                (vals a t i j)"
    by auto
  have fmax: "0 < finfo_max d" for d by (cases d) simp_all
  have nv: "(is_nan (nearest_value d u u) \<longleftrightarrow> is_nan u) \<and>
            (\<forall>r. u = Fin r \<longrightarrow> nearest_value d u u = Fin (max 0 r)) \<and>
            (u = PInf \<longrightarrow> nearest_value d u u = Fin (finfo_max d)) \<and>
            (u = NInf \<longrightarrow> nearest_value d u u = Fin 0)" for d u
    using fmax [of d] by (cases u) (auto simp: nearest_value_def max_def)
  have "\<forall>t < ntime a. \<forall>i < nlat a. \<forall>j < nlon a.
          vals fm t i j = nearest_value (dtype a) (vals a t i j) (vals a t i j)"
    using v by (simp add: nearest_index_same)
  with nv have "\<forall>t < ntime a. \<forall>i < nlat a. \<forall>j < nlon a.
              (is_nan (vals fm t i j) \<longleftrightarrow> is_nan (vals a t i j)) \<and>
              (\<forall>r. vals a t i j = Fin r \<longrightarrow> vals fm t i j = Fin (max 0 r)) \<and>
              (vals a t i j = PInf \<longrightarrow> vals fm t i j = Fin (finfo_max (dtype a))) \<and>
              (vals a t i j = NInf \<longrightarrow> vals fm t i j = Fin 0)"
    by simp
  moreover from assms have "target_zoom a a = (1, 1)"
    by (simp add: target_zoom_def)
  ultimately show ?thesis using fm d by blast
qed

text \<open>
  A run of the theorem on an array with one negative value.
\<close>

theorem C6_resample_onto_own_grid_witness:
  "0 < nlat negative_array \<and> 0 < nlon negative_array \<and> distinct (stamps negative_array) \<and>
   (case grid_aligner ndzoom_order0 mask_zoom_order0 0 negative_array negative_array of
      Inl e \<Rightarrow> False
    | Inr fm \<Rightarrow> vals fm 0 0 0 = Fin 0)"
proof -
  have p: "0 < nlat negative_array" "0 < nlon negative_array" "distinct (stamps negative_array)"
    by (simp_all add: stamps_def distinct_map negative_array_def)
  from C6_resample_onto_own_grid [OF p] obtain fm where
    fm: "grid_aligner ndzoom_order0 mask_zoom_order0 0 negative_array negative_array = Inr fm"
    and v: "\<forall>t < ntime negative_array. \<forall>i < nlat negative_array. \<forall>j < nlon negative_array.
              (\<forall>r. vals negative_array t i j = Fin r \<longrightarrow> vals fm t i j = Fin (max 0 r))"
    by blast
  from v have "vals fm 0 0 0 = Fin 0" by (simp add: negative_array_def)
  with fm p show ?thesis by simp
qed

text \<open>
  C6 as the spec states it fails. A cell that is not missing and holds -1 holds 0 after
  the resampling, and a cell that holds plus infinity holds a finite number. Without a
  latitude the zoom factor cannot be computed, and with a time stamp that occurs twice
  the selection at the stamp is three-dimensional and the zoom refuses it.
\<close>

theorem C6_negative_value_counterexample:
  "(case grid_aligner ndzoom_order0 mask_zoom_order0 0 negative_array negative_array of
      Inl e \<Rightarrow> False
    | Inr fm \<Rightarrow>
        \<not> is_nan (vals negative_array 0 0 0) \<and> vals negative_array 0 0 0 = Fin (- 1) \<and>
        vals fm 0 0 0 = Fin 0) \<and>
   (case grid_aligner ndzoom_order0 mask_zoom_order0 0
           (negative_array\<lparr>vals := (\<lambda>t i j. PInf)\<rparr>) (negative_array\<lparr>vals := (\<lambda>t i j. PInf)\<rparr>) of
      Inl e \<Rightarrow> False
    | Inr fm \<Rightarrow> vals fm 0 0 0 = Fin (finfo_max Float64)) \<and>
   grid_aligner ndzoom_order0 mask_zoom_order0 0
     (negative_array\<lparr>nlat := 0\<rparr>) (negative_array\<lparr>nlat := 0\<rparr>) = Inl ZeroDivisionError \<and>
   grid_aligner ndzoom_order0 mask_zoom_order0 0
     (negative_array\<lparr>ntime := 2, time := (\<lambda>k. 0)\<rparr>)
     (negative_array\<lparr>ntime := 2, time := (\<lambda>k. 0)\<rparr>) = Inl RuntimeError"
proof -
  have run: "\<exists>fm. grid_aligner ndzoom_order0 mask_zoom_order0 0 b b = Inr fm \<and>
               vals fm 0 0 0 = nearest_value (dtype b) (vals b 0 0 0) (vals b 0 0 0)"
    if "ntime b = 1" "nlat b = 1" "nlon b = 1" "time b = int" for b
  proof -
    from that have "0 < nlat b" "0 < nlon b" "distinct (stamps b)" "stamps b = stamps b"
      by (simp_all add: stamps_def)
    from grid_aligner_order0 [OF this] that show ?thesis
      by (auto simp: nearest_index_def)
  qed
  have first: "(case grid_aligner ndzoom_order0 mask_zoom_order0 0 negative_array negative_array of
      Inl e \<Rightarrow> False
    | Inr fm \<Rightarrow>
        \<not> is_nan (vals negative_array 0 0 0) \<and> vals negative_array 0 0 0 = Fin (- 1) \<and>
        vals fm 0 0 0 = Fin 0)"
    using run [of negative_array] by (auto simp: negative_array_def nearest_value_def)
  have second: "(case grid_aligner ndzoom_order0 mask_zoom_order0 0
           (negative_array\<lparr>vals := (\<lambda>t i j. PInf)\<rparr>) (negative_array\<lparr>vals := (\<lambda>t i j. PInf)\<rparr>) of
      Inl e \<Rightarrow> False
    | Inr fm \<Rightarrow> vals fm 0 0 0 = Fin (finfo_max Float64))"
    using run [of "negative_array\<lparr>vals := (\<lambda>t i j. PInf)\<rparr>"]
    by (auto simp: negative_array_def nearest_value_def)
  have third: "grid_aligner ndzoom_order0 mask_zoom_order0 0
     (negative_array\<lparr>nlat := 0\<rparr>) (negative_array\<lparr>nlat := 0\<rparr>) = Inl ZeroDivisionError"
    by (simp add: grid_aligner_def zoom_factor_def)
  have "stamp_positions (negative_array\<lparr>ntime := 2, time := (\<lambda>k. 0)\<rparr>) 0 = [0, 1]"
    by (simp add: stamp_positions_def eval_nat_numeral)
  then have fourth: "grid_aligner ndzoom_order0 mask_zoom_order0 0
     (negative_array\<lparr>ntime := 2, time := (\<lambda>k. 0)\<rparr>)
     (negative_array\<lparr>ntime := 2, time := (\<lambda>k. 0)\<rparr>) = Inl RuntimeError"
    by (simp add: grid_aligner_def zoom_factor_def resample_at_def get_loc_def
        negative_array_def eval_nat_numeral)
  from first second third fourth show ?thesis by blast
qed


subsection \<open>C7: nearest-neighbour resampling of 2 by 2 onto 4 by 4\<close>

text \<open>
  Claim C7, as the code has it, with the nearest-neighbour zoom. The source has shape
  (12, 2, 2) and distinct time stamps; the reference has shape (12, 4, 4), carries the
  same stamps in the same order and has the type of the source (a store into an array of
  a narrower type would round the numbers). Then the resampling succeeds and gives a
  (12, 4, 4) array. At every time step the zoom call returns a 4 by 4 array in which the
  cell \<open>(i, j)\<close> holds the single source pixel \<open>(i div 2, j div 2)\<close> of its 2 by 2 block
  after \<^verbatim>\<open>nan_to_num\<close>. The cell of the resampled array is missing where that pixel or
  the reference cell is missing, and otherwise holds the zoomed value after the clamp. It
  equals the pixel wherever the pixel is a finite number that is not negative and the
  reference cell is not missing.
\<close>

theorem C7_nearest_blocks:
  assumes "ntime soil_moisture = 12" "nlat soil_moisture = 2" "nlon soil_moisture = 2"
    and "ntime bare_soil = 12" "nlat bare_soil = 4" "nlon bare_soil = 4"
    and "distinct (stamps soil_moisture)" and "stamps bare_soil = stamps soil_moisture"
    and "dtype bare_soil = dtype soil_moisture"
  shows "\<exists>fm. grid_aligner ndzoom_order0 mask_zoom_order0 0 soil_moisture bare_soil = Inr fm \<and>
           ntime fm = 12 \<and> nlat fm = 4 \<and> nlon fm = 4 \<and>
           (\<forall>t < 12.
              (\<exists>interp.
                 ndzoom_order0 0 (target_zoom bare_soil soil_moisture)
                   (nan_to_num_arr (dtype soil_moisture) (sel_time soil_moisture t)) = Inr interp \<and>
                 rows interp = 4 \<and> cols interp = 4 \<and>
                 (\<forall>i < 4. \<forall>j < 4.
                    cell interp i j =
                      nan_to_num (dtype soil_moisture) (vals soil_moisture t (i div 2) (j div 2)))) \<and>
              (\<forall>i < 4. \<forall>j < 4.
                 vals fm t i j =
                   nearest_value (dtype soil_moisture)
                     (vals soil_moisture t (i div 2) (j div 2)) (vals bare_soil t i j) \<and>
                 (\<forall>r. 0 \<le> r \<and> vals soil_moisture t (i div 2) (j div 2) = Fin r \<and>
                       \<not> is_nan (vals bare_soil t i j) \<longrightarrow>
                       vals fm t i j = vals soil_moisture t (i div 2) (j div 2))))"
proof -
  have "0 < nlat soil_moisture" "0 < nlon soil_moisture"
    using assms by simp_all
  from grid_aligner_order0 [OF this assms(7,8)] obtain fm where
    fm: "grid_aligner ndzoom_order0 mask_zoom_order0 0 soil_moisture bare_soil = Inr fm"
    and d: "ntime fm = ntime bare_soil" "nlat fm = nlat bare_soil" "nlon fm = nlon bare_soil"
    and v: "\<forall>t < ntime bare_soil. \<forall>i j. vals fm t i j =
              nearest_value (dtype soil_moisture)
                (vals soil_moisture t (nearest_index (nlat soil_moisture) (nlat bare_soil) i)
                   (nearest_index (nlon soil_moisture) (nlon bare_soil) j))
                (vals bare_soil t i j)"
    by blast
  have blk: "\<forall>t < 12. \<forall>i < 4. \<forall>j < 4.
          vals fm t i j =
            nearest_value (dtype soil_moisture)
              (vals soil_moisture t (i div 2) (j div 2)) (vals bare_soil t i j)"
    using v assms(1-6) by (simp add: nearest_index_2_4)
  have keep: "nearest_value dt (Fin r) u = Fin r" if "0 \<le> r" "\<not> is_nan u" for dt r u
    using that by (simp add: nearest_value_def)
  have tz: "target_zoom bare_soil soil_moisture = (2, 2)"
    using assms(1-6) by (simp add: target_zoom_def)
  have call: "\<exists>interp.
                 ndzoom_order0 0 (target_zoom bare_soil soil_moisture)
                   (nan_to_num_arr (dtype soil_moisture) (sel_time soil_moisture t)) = Inr interp \<and>
                 rows interp = 4 \<and> cols interp = 4 \<and>
                 (\<forall>i < 4. \<forall>j < 4.
                    cell interp i j =
                      nan_to_num (dtype soil_moisture) (vals soil_moisture t (i div 2) (j div 2)))"
    for t
    unfolding tz using assms(2,3) by (rule zoom_call_2_4)
  from blk keep have full: "\<forall>t < 12. \<forall>i < 4. \<forall>j < 4.
              vals fm t i j =
                nearest_value (dtype soil_moisture)
                  (vals soil_moisture t (i div 2) (j div 2)) (vals bare_soil t i j) \<and>
              (\<forall>r. 0 \<le> r \<and> vals soil_moisture t (i div 2) (j div 2) = Fin r \<and>
                    \<not> is_nan (vals bare_soil t i j) \<longrightarrow>
                    vals fm t i j = vals soil_moisture t (i div 2) (j div 2))"
    by simp
  from d assms(1-6) have "ntime fm = 12" "nlat fm = 4" "nlon fm = 4" by simp_all
  with fm full call show ?thesis by blast
qed

text \<open>
  A run of the theorem on a source of negative pixels with one missing pixel.
\<close>

theorem C7_nearest_blocks_witness:
  "ntime soil_2x2 = 12 \<and> nlat soil_2x2 = 2 \<and> nlon soil_2x2 = 2 \<and>
   ntime bare_4x4 = 12 \<and> nlat bare_4x4 = 4 \<and> nlon bare_4x4 = 4 \<and>
   distinct (stamps soil_2x2) \<and> stamps bare_4x4 = stamps soil_2x2 \<and>
   dtype bare_4x4 = dtype soil_2x2 \<and>
   (case grid_aligner ndzoom_order0 mask_zoom_order0 0 soil_2x2 bare_4x4 of
      Inl e \<Rightarrow> False
    | Inr fm \<Rightarrow> nlat fm = 4 \<and> nlon fm = 4 \<and> vals fm 11 3 1 = Fin 0 \<and> vals fm 11 3 2 = NaN)"
proof -
  have h: "ntime soil_2x2 = 12" "nlat soil_2x2 = 2" "nlon soil_2x2 = 2"
    "ntime bare_4x4 = 12" "nlat bare_4x4 = 4" "nlon bare_4x4 = 4"
    "distinct (stamps soil_2x2)" "stamps bare_4x4 = stamps soil_2x2"
    "dtype bare_4x4 = dtype soil_2x2"
    by (simp_all add: stamps_def distinct_map soil_2x2_def bare_4x4_def)
  from C7_nearest_blocks [OF h] obtain fm where
    fm: "grid_aligner ndzoom_order0 mask_zoom_order0 0 soil_2x2 bare_4x4 = Inr fm"
    and d: "nlat fm = 4" "nlon fm = 4"
    and v: "\<forall>t < 12. \<forall>i < 4. \<forall>j < 4.
              vals fm t i j =
                nearest_value (dtype soil_2x2)
                  (vals soil_2x2 t (i div 2) (j div 2)) (vals bare_4x4 t i j)"
    by blast
  from v have
    "vals fm 11 3 1 =
       nearest_value (dtype soil_2x2) (vals soil_2x2 11 (3 div 2) (1 div 2)) (vals bare_4x4 11 3 1)"
    "vals fm 11 3 2 =
       nearest_value (dtype soil_2x2) (vals soil_2x2 11 (3 div 2) (2 div 2)) (vals bare_4x4 11 3 2)"
    by simp_all
  then have "vals fm 11 3 1 = Fin 0" "vals fm 11 3 2 = NaN"
    by (simp_all add: soil_2x2_def bare_4x4_def nearest_value_def)
  with fm d h show ?thesis by simp
qed

text \<open>
  C7 as the spec states it fails: the source pixel of the first block is -1 and the
  cells of the block hold 0 in the resampled array; and in the array that the zoom call
  returns, the block of the missing pixel holds 0. Against a reference of the same shape
  that carries other time stamps, the selection of the reference at the first stamp
  raises \<^verbatim>\<open>KeyError\<close>; and when all time steps carry the same stamp, the selection of
  the source at the stamp is three-dimensional and the zoom refuses it.
\<close>

theorem C7_negative_pixel_counterexample:
  "(case grid_aligner ndzoom_order0 mask_zoom_order0 0 soil_2x2 bare_4x4 of
      Inl e \<Rightarrow> False
    | Inr fm \<Rightarrow> vals soil_2x2 0 0 0 = Fin (- 1) \<and> vals fm 0 0 0 = Fin 0 \<and> vals fm 0 0 1 = Fin 0) \<and>
   (case ndzoom_order0 0 (2, 2) (nan_to_num_arr (dtype soil_2x2) (sel_time soil_2x2 0)) of
      Inl e \<Rightarrow> False
    | Inr interp \<Rightarrow> vals soil_2x2 0 1 1 = NaN \<and> cell interp 3 3 = Fin 0) \<and>
   grid_aligner ndzoom_order0 mask_zoom_order0 0 soil_2x2
     (bare_4x4\<lparr>time := (\<lambda>k. int k + 100)\<rparr>) = Inl KeyError \<and>
   grid_aligner ndzoom_order0 mask_zoom_order0 0 (soil_2x2\<lparr>time := (\<lambda>k. 0)\<rparr>)
     (bare_4x4\<lparr>time := (\<lambda>k. 0)\<rparr>) = Inl RuntimeError"
proof -
  have "0 < nlat soil_2x2" "0 < nlon soil_2x2" "distinct (stamps soil_2x2)"
    "stamps bare_4x4 = stamps soil_2x2"
    by (simp_all add: stamps_def distinct_map soil_2x2_def bare_4x4_def)
  from grid_aligner_order0 [OF this] obtain fm where
    fm: "grid_aligner ndzoom_order0 mask_zoom_order0 0 soil_2x2 bare_4x4 = Inr fm"
    and v: "\<forall>t < ntime bare_4x4. \<forall>i j. vals fm t i j =
              nearest_value (dtype soil_2x2)
                (vals soil_2x2 t (nearest_index (nlat soil_2x2) (nlat bare_4x4) i)
                   (nearest_index (nlon soil_2x2) (nlon bare_4x4) j))
                (vals bare_4x4 t i j)"
    by blast
  from v have "vals fm 0 0 0 = Fin 0 \<and> vals fm 0 0 1 = Fin 0"
    by (simp add: soil_2x2_def bare_4x4_def nearest_value_def nearest_index_2_4)
  with fm have first: "(case grid_aligner ndzoom_order0 mask_zoom_order0 0 soil_2x2 bare_4x4 of
      Inl e \<Rightarrow> False
    | Inr fm \<Rightarrow> vals soil_2x2 0 0 0 = Fin (- 1) \<and> vals fm 0 0 0 = Fin 0 \<and> vals fm 0 0 1 = Fin 0)"
    by (simp add: soil_2x2_def)
  have s: "nlat soil_2x2 = 2" "nlon soil_2x2 = 2" by (simp_all add: soil_2x2_def)
  from zoom_call_2_4 [OF s, of "dtype soil_2x2" 0] obtain interp where
    i: "ndzoom_order0 0 (2, 2) (nan_to_num_arr (dtype soil_2x2) (sel_time soil_2x2 0)) = Inr interp"
    and c: "\<forall>i < 4. \<forall>j < 4.
              cell interp i j = nan_to_num (dtype soil_2x2) (vals soil_2x2 0 (i div 2) (j div 2))"
    by blast
  from c have "cell interp 3 3 = nan_to_num (dtype soil_2x2) (vals soil_2x2 0 (3 div 2) (3 div 2))"
    by simp
  then have "cell interp 3 3 = Fin 0" by (simp add: soil_2x2_def)
  with i have second:
    "(case ndzoom_order0 0 (2, 2) (nan_to_num_arr (dtype soil_2x2) (sel_time soil_2x2 0)) of
      Inl e \<Rightarrow> False
    | Inr interp \<Rightarrow> vals soil_2x2 0 1 1 = NaN \<and> cell interp 3 3 = Fin 0)"
    by (simp add: soil_2x2_def)
  define bare' where "bare' = bare_4x4\<lparr>time := (\<lambda>k. int k + 100)\<rparr>"
  define fm0 where "fm0 = bare'\<lparr>time := time soil_2x2\<rparr>"
  have ts: "time fm0 0 = 0" by (simp add: fm0_def soil_2x2_def)
  have pos: "stamp_positions soil_2x2 0 = [0]"
    using stamp_positions_distinct [of soil_2x2 0]
    by (simp add: stamps_def distinct_map soil_2x2_def)
  have absent: "sel_label bare' 0 = Inl KeyError"
    by (simp add: bare'_def sel_label_def get_loc_def stamp_positions_def filter_empty_conv)
  from zoom_call_2_4 [OF s, of "dtype soil_2x2" 0] obtain interp0 where
    i0: "ndzoom_order0 0 (2, 2) (nan_to_num_arr (dtype soil_2x2) (sel_time soil_2x2 0))
           = Inr interp0"
    and r0: "rows interp0 = 4" "cols interp0 = 4"
    by blast
  from r0 have "broadcastable (rows interp0) (rows (sel_time fm0 0))"
    "broadcastable (cols interp0) (cols (sel_time fm0 0))"
    by (simp_all add: broadcastable_def sel_time_def fm0_def bare'_def bare_4x4_def)
  with i0 have "resample_step ndzoom_order0 mask_zoom_order0 0 (2, 2) (dtype soil_2x2)
               (sel_time soil_2x2 0) (Inl KeyError) (sel_time fm0 0) = Inl KeyError"
    by (rule resample_step_ref_fails)
  then have at: "resample_at ndzoom_order0 mask_zoom_order0 0 (2, 2) soil_2x2 bare' fm0 0
                   = Inl KeyError"
    by (simp add: resample_at_def ts get_loc_def pos absent)
  have up: "[0..<ntime bare'] = 0 # [1..<12]"
    by (simp add: bare'_def bare_4x4_def upt_conv_Cons)
  have zf: "zoom_factor bare' soil_2x2 = Inr (2, 2)"
    by (simp add: zoom_factor_def bare'_def bare_4x4_def soil_2x2_def)
  have nt: "ntime soil_2x2 = ntime bare'"
    by (simp add: bare'_def bare_4x4_def soil_2x2_def)
  have "grid_aligner ndzoom_order0 mask_zoom_order0 0 soil_2x2 bare' = Inl KeyError"
    by (simp add: grid_aligner_def nt zf up fm0_def [symmetric] at)
  then have third: "grid_aligner ndzoom_order0 mask_zoom_order0 0 soil_2x2
     (bare_4x4\<lparr>time := (\<lambda>k. int k + 100)\<rparr>) = Inl KeyError"
    by (simp add: bare'_def)
  have "get_loc (soil_2x2\<lparr>time := (\<lambda>k. 0)\<rparr>) 0 = Inr Several"
    by (simp add: get_loc_def stamp_positions_def soil_2x2_def upt_conv_Cons)
  then have fourth: "grid_aligner ndzoom_order0 mask_zoom_order0 0 (soil_2x2\<lparr>time := (\<lambda>k. 0)\<rparr>)
     (bare_4x4\<lparr>time := (\<lambda>k. 0)\<rparr>) = Inl RuntimeError"
    by (simp add: grid_aligner_def zoom_factor_def upt_conv_Cons resample_at_def
        soil_2x2_def [THEN arg_cong, of ntime] soil_2x2_def [THEN arg_cong, of nlat]
        soil_2x2_def [THEN arg_cong, of nlon]
        bare_4x4_def [THEN arg_cong, of ntime])
  from first second third fourth show ?thesis by blast
qed


subsection \<open>C8: perfectly linearly related series\<close>





subsection \<open>C9: a cell depends on its own two series only\<close>

text \<open>
  Claim C9. Take two runs of the mapper on co-registered inputs, each with buffers
  shaped by its reference. If at a cell both runs have the same two time series, then the
  four statistics at the cell are the same in both runs; they are the statistics of that
  pair of series, the value that the iteration of the cell appended.
\<close>

theorem C9_cell_depends_on_own_series:
  assumes run: "correlation_mapper pr sr a b (new_corr b) = Inr out"
    and run': "correlation_mapper pr sr a' b' (new_corr b') = Inr out'"
    and shp: "nlat a = nlat b" "nlon a = nlon b"
    and shp': "nlat a' = nlat b'" "nlon a' = nlon b'"
    and rng: "i < nlat b" "j < nlon b" "i < nlat b'" "j < nlon b'"
    and same: "series a i j = series a' i j" "series b i j = series b' i j"
  shows "cell (pearson_r out) i j = cell (pearson_r out') i j \<and>
         cell (pearson_p out) i j = cell (pearson_p out') i j \<and>
         cell (spearman_r out) i j = cell (spearman_r out') i j \<and>
         cell (spearman_p out) i j = cell (spearman_p out') i j \<and>
         (\<exists>v. pair_stats pr sr (series a i j) (series b i j) = Inr v \<and>
               cell (pearson_r out) i j = Some (stat0 v) \<and>
               cell (pearson_p out) i j = Some (stat1 v) \<and>
               cell (spearman_r out) i j = Some (stat2 v) \<and>
               cell (spearman_p out) i j = Some (stat3 v))"
proof -
  from correlation_mapper_cell [OF run shp] rng(1,2) obtain v where
    v: "pair_stats pr sr (series a i j) (series b i j) = Inr v"
    and c: "cell (pearson_r out) i j = Some (stat0 v)" "cell (pearson_p out) i j = Some (stat1 v)"
      "cell (spearman_r out) i j = Some (stat2 v)" "cell (spearman_p out) i j = Some (stat3 v)"
    by blast
  from correlation_mapper_cell [OF run' shp'] rng(3,4) obtain v' where
    v': "pair_stats pr sr (series a' i j) (series b' i j) = Inr v'"
    and c': "cell (pearson_r out') i j = Some (stat0 v')" "cell (pearson_p out') i j = Some (stat1 v')"
      "cell (spearman_r out') i j = Some (stat2 v')" "cell (spearman_p out') i j = Some (stat3 v')"
    by blast
  from v v' same have "v = v'" by simp
  with v c c' show ?thesis by auto
qed

text \<open>
  Two runs that agree on the first cell and differ on the second.
\<close>

theorem C9_cell_depends_on_own_series_witness:
  "series ramp_and_flat 0 0 = series ramp_and_gap 0 0 \<and>
   series ramp_and_flat 0 1 \<noteq> series ramp_and_gap 0 1 \<and>
   (case correlation_mapper pearsonr_ref spearmanr_ref ramp_and_flat ramp_and_flat
           (new_corr ramp_and_flat) of
      Inl e \<Rightarrow> False
    | Inr out \<Rightarrow>
        (case correlation_mapper pearsonr_ref spearmanr_ref ramp_and_gap ramp_and_gap
                (new_corr ramp_and_gap) of
           Inl e \<Rightarrow> False
         | Inr out' \<Rightarrow>
             cell (pearson_r out) 0 0 = cell (pearson_r out') 0 0 \<and>
             cell (pearson_p out) 0 0 = cell (pearson_p out') 0 0 \<and>
             cell (spearman_r out) 0 0 = cell (spearman_r out') 0 0 \<and>
             cell (spearman_p out) 0 0 = cell (spearman_p out') 0 0 \<and>
             cell (pearson_r out) 0 0 = Some (Fin 1)))"
proof -
  from mapper_two obtain out out' where
    run: "correlation_mapper pearsonr_ref spearmanr_ref ramp_and_flat ramp_and_flat
            (new_corr ramp_and_flat) = Inr out"
    and run': "correlation_mapper pearsonr_ref spearmanr_ref ramp_and_gap ramp_and_gap
            (new_corr ramp_and_gap) = Inr out'"
    by blast
  have rng: "0 < nlat ramp_and_flat" "0 < nlon ramp_and_flat"
    "0 < nlat ramp_and_gap" "0 < nlon ramp_and_gap"
    by (simp_all add: ramp_and_flat_def ramp_and_gap_def)
  have same: "series ramp_and_flat 0 0 = series ramp_and_gap 0 0"
    by (simp add: series_two)
  from C9_cell_depends_on_own_series [OF run run' refl refl refl refl rng same same]
  obtain v where
    eq: "cell (pearson_r out) 0 0 = cell (pearson_r out') 0 0"
      "cell (pearson_p out) 0 0 = cell (pearson_p out') 0 0"
      "cell (spearman_r out) 0 0 = cell (spearman_r out') 0 0"
      "cell (spearman_p out) 0 0 = cell (spearman_p out') 0 0"
    and v: "pair_stats pearsonr_ref spearmanr_ref (series ramp_and_flat 0 0) (series ramp_and_flat 0 0) = Inr v"
    and c: "cell (pearson_r out) 0 0 = Some (stat0 v)"
    by blast
  from v have "v = (Fin 1, Fin 0, Fin 1, Fin 0)"
    by (simp add: series_two stats_ramp_ramp)
  with run run' eq c same show ?thesis by (simp add: series_two)
qed


subsection \<open>C10: every cell of the statistic grid is written\<close>

text \<open>
  Claim C10. The four fields are allocated uninitialised with the latitude and longitude
  counts of the reference. The resampled array has the same counts, being a copy of the
  reference. After a successful run of the mapper on the resampled array every field has
  that shape and every cell of every field holds a number (possibly not-a-number): the
  statistic that the loop computed for the cell.
\<close>

theorem C10_every_cell_written:
  assumes al: "grid_aligner ndz ndzb order soil_moisture bare_soil = Inr fine_moisture"
    and run: "correlation_mapper pr sr fine_moisture bare_soil (new_corr bare_soil) = Inr out"
  shows "nlat fine_moisture = nlat bare_soil \<and> nlon fine_moisture = nlon bare_soil \<and>
         rows (pearson_r (new_corr bare_soil)) = nlat bare_soil \<and>
         cols (pearson_r (new_corr bare_soil)) = nlon bare_soil \<and>
         rows (pearson_p (new_corr bare_soil)) = nlat bare_soil \<and>
         cols (pearson_p (new_corr bare_soil)) = nlon bare_soil \<and>
         rows (spearman_r (new_corr bare_soil)) = nlat bare_soil \<and>
         cols (spearman_r (new_corr bare_soil)) = nlon bare_soil \<and>
         rows (spearman_p (new_corr bare_soil)) = nlat bare_soil \<and>
         cols (spearman_p (new_corr bare_soil)) = nlon bare_soil \<and>
         (\<forall>i j. cell (pearson_r (new_corr bare_soil)) i j = None \<and>
                cell (pearson_p (new_corr bare_soil)) i j = None \<and>
                cell (spearman_r (new_corr bare_soil)) i j = None \<and>
                cell (spearman_p (new_corr bare_soil)) i j = None) \<and>
         rows (pearson_r out) = nlat bare_soil \<and> cols (pearson_r out) = nlon bare_soil \<and>
         rows (pearson_p out) = nlat bare_soil \<and> cols (pearson_p out) = nlon bare_soil \<and>
         rows (spearman_r out) = nlat bare_soil \<and> cols (spearman_r out) = nlon bare_soil \<and>
         rows (spearman_p out) = nlat bare_soil \<and> cols (spearman_p out) = nlon bare_soil \<and>
         (\<forall>i < nlat bare_soil. \<forall>j < nlon bare_soil. \<exists>v.
            cell_stats pr sr fine_moisture bare_soil i j = Inr v \<and>
            cell (pearson_r out) i j = Some (stat0 v) \<and>
            cell (pearson_p out) i j = Some (stat1 v) \<and>
            cell (spearman_r out) i j = Some (stat2 v) \<and>
            cell (spearman_p out) i j = Some (stat3 v))"
proof -
  from grid_aligner_Inr [OF al] have shp:
    "nlat fine_moisture = nlat bare_soil" "nlon fine_moisture = nlon bare_soil"
    by simp_all
  have bufs: "rows (pearson_r (new_corr bare_soil)) = nlat bare_soil \<and>
         cols (pearson_r (new_corr bare_soil)) = nlon bare_soil \<and>
         rows (pearson_p (new_corr bare_soil)) = nlat bare_soil \<and>
         cols (pearson_p (new_corr bare_soil)) = nlon bare_soil \<and>
         rows (spearman_r (new_corr bare_soil)) = nlat bare_soil \<and>
         cols (spearman_r (new_corr bare_soil)) = nlon bare_soil \<and>
         rows (spearman_p (new_corr bare_soil)) = nlat bare_soil \<and>
         cols (spearman_p (new_corr bare_soil)) = nlon bare_soil \<and>
         (\<forall>i j. cell (pearson_r (new_corr bare_soil)) i j = None \<and>
                cell (pearson_p (new_corr bare_soil)) i j = None \<and>
                cell (spearman_r (new_corr bare_soil)) i j = None \<and>
                cell (spearman_p (new_corr bare_soil)) i j = None)"
    by (simp add: new_corr_def empty_array_def)
  note mc = correlation_mapper_cell [OF run shp]
  have "\<forall>i < nlat bare_soil. \<forall>j < nlon bare_soil. \<exists>v.
            cell_stats pr sr fine_moisture bare_soil i j = Inr v \<and>
            cell (pearson_r out) i j = Some (stat0 v) \<and>
            cell (pearson_p out) i j = Some (stat1 v) \<and>
            cell (spearman_r out) i j = Some (stat2 v) \<and>
            cell (spearman_p out) i j = Some (stat3 v)"
    using mc shp by (simp add: cell_stats_in_range)
  with mc shp bufs show ?thesis by simp
qed

text \<open>
  A run of the whole pipeline on a single cell over three time steps.
\<close>

theorem C10_every_cell_written_witness:
  "(case grid_aligner ndzoom_order0 mask_zoom_order0 0 ramp ramp of
      Inl e \<Rightarrow> False
    | Inr fm \<Rightarrow>
        (case correlation_mapper pearsonr_ref spearmanr_ref fm ramp (new_corr ramp) of
           Inl e \<Rightarrow> False
         | Inr out \<Rightarrow>
             cell (pearson_r (new_corr ramp)) 0 0 = None \<and>
             rows (pearson_r out) = 1 \<and> cols (pearson_r out) = 1 \<and>
             cell (pearson_r out) 0 0 = Some (Fin 1) \<and> cell (pearson_p out) 0 0 = Some (Fin 0) \<and>
             cell (spearman_r out) 0 0 = Some (Fin 1) \<and> cell (spearman_p out) 0 0 = Some (Fin 0)))"
proof -
  have "0 < nlat ramp" "0 < nlon ramp" "distinct (stamps ramp)" "stamps ramp = stamps ramp"
    by (simp_all add: stamps_def distinct_map ramp_def)
  from grid_aligner_order0 [OF this] obtain fm where
    al: "grid_aligner ndzoom_order0 mask_zoom_order0 0 ramp ramp = Inr fm"
    and d: "ntime fm = ntime ramp" "nlat fm = nlat ramp" "nlon fm = nlon ramp"
    and v: "\<forall>t < ntime ramp. \<forall>i j. vals fm t i j =
              nearest_value (dtype ramp)
                (vals ramp t (nearest_index (nlat ramp) (nlat ramp) i)
                   (nearest_index (nlon ramp) (nlon ramp) j))
                (vals ramp t i j)"
    by blast
  from v have "\<forall>t < 3. vals fm t 0 0 = Fin (real t + 1)"
    by (simp add: ramp_def ramp_def nearest_value_def)
  with d have sfm: "series fm 0 0 = [Fin 1, Fin 2, Fin 3]"
    by (simp add: series_def ramp_def eval_nat_numeral)
  have "\<exists>out. correlation_mapper pearsonr_ref spearmanr_ref fm ramp (new_corr ramp) = Inr out"
    by (rule correlation_mapper_returns)
       (simp_all add: d ramp_def [THEN arg_cong, of nlat] ramp_def [THEN arg_cong, of nlon]
          sfm series_ramp stats_ramp_ramp)
  then obtain out where
    run: "correlation_mapper pearsonr_ref spearmanr_ref fm ramp (new_corr ramp) = Inr out" ..
  from C10_every_cell_written [OF al run] obtain w where
    b: "cell (pearson_r (new_corr ramp)) 0 0 = None"
    and s: "rows (pearson_r out) = nlat ramp" "cols (pearson_r out) = nlon ramp"
    and w: "cell_stats pearsonr_ref spearmanr_ref fm ramp 0 0 = Inr w"
    and c: "cell (pearson_r out) 0 0 = Some (stat0 w)" "cell (pearson_p out) 0 0 = Some (stat1 w)"
      "cell (spearman_r out) 0 0 = Some (stat2 w)" "cell (spearman_p out) 0 0 = Some (stat3 w)"
    by (auto simp: ramp_def [THEN arg_cong, of nlat] ramp_def [THEN arg_cong, of nlon])
  from w d have "w = (Fin 1, Fin 0, Fin 1, Fin 0)"
    by (simp add: cell_stats_def sel_cell_def sfm series_ramp stats_ramp_ramp
        ramp_def [THEN arg_cong, of nlat] ramp_def [THEN arg_cong, of nlon])
  with al run b s c show ?thesis
    by (simp add: ramp_def [THEN arg_cong, of nlat] ramp_def [THEN arg_cong, of nlon])
qed



end
